theory Spec2Isabelle
  imports Complex_Main
begin

section \<open>The storefront back end: data model\<close>

text \<open>
  The back end is the set of HTTP handlers of \<^verbatim>\<open>supabaseFunctions.md\<close> over the tables of
  \<^verbatim>\<open>schema.sql\<close>. A table is the list of its rows. A UUID is a natural number, a
  timestamp the number of seconds since the epoch, a money amount (a JavaScript number,
  a \<^verbatim>\<open>DECIMAL(10, 2)\<close> column) a rational: the rounding of doubles and of decimal
  columns is outside the model. A column or JSON key that may be absent is an option.
\<close>

type_synonym uuid = nat
type_synonym timestamp = nat

datatype json = JNull | JStr string | JNum rat | JId uuid

record auth_user =
  au_id :: uuid
  au_email :: "string option"

record user_row =
  u_id :: uuid
  u_email :: "string option"
  u_role :: string
  u_name :: "string option"
  u_phone :: "string option"
  u_created_at :: timestamp

record category_row =
  cat_id :: uuid
  cat_name :: string
  cat_description :: "string option"
  cat_created_at :: timestamp

record product_row =
  p_id :: uuid
  p_name :: string
  p_description :: "string option"
  p_price :: rat
  p_category_id :: "uuid option"
  p_image :: "string option"
  p_stock :: int
  p_created_by :: "uuid option"
  p_created_at :: timestamp
  p_updated_at :: timestamp

record address_row =
  a_id :: uuid
  a_user_id :: uuid
  a_name :: "string option"
  a_street :: "string option"
  a_city :: "string option"
  a_state :: "string option"
  a_postal_code :: "string option"
  a_country :: "string option"
  a_is_default :: bool
  a_created_at :: timestamp

record cart_row =
  c_id :: uuid
  c_user_id :: uuid
  c_product_id :: uuid
  c_quantity :: int
  c_created_at :: timestamp

record wishlist_row =
  w_id :: uuid
  w_user_id :: uuid
  w_product_id :: uuid
  w_created_at :: timestamp

record order_row =
  o_id :: uuid
  o_user_id :: uuid
  o_user_email :: "string option"
  o_total :: rat
  o_status :: string
  o_shipping_address :: string
  o_created_at :: timestamp
  o_updated_at :: timestamp
  o_updated_by :: "uuid option"

record order_item_row =
  i_id :: uuid
  i_order_id :: uuid
  i_product_id :: uuid
  i_name :: string
  i_price :: rat
  i_quantity :: int

record log_row =
  l_id :: uuid
  l_type :: string
  l_user_id :: "uuid option"
  l_user_email :: "string option"
  l_details :: "(string \<times> json) list option"
  l_created_at :: timestamp

text \<open>
  The whole state a request can read or change: the accounts and the sessions of the
  identity provider (\<open>sessions\<close> is its \<^verbatim>\<open>auth.getUser(token)\<close>) and the nine tables.
\<close>

record db =
  accounts :: "auth_user list"
  sessions :: "string \<Rightarrow> auth_user option"
  users :: "user_row list"
  categories :: "category_row list"
  products :: "product_row list"
  addresses :: "address_row list"
  cart_items :: "cart_row list"
  wishlist_items :: "wishlist_row list"
  orders :: "order_row list"
  order_items :: "order_item_row list"
  activity_logs :: "log_row list"

subsection \<open>Request bodies\<close>

text \<open>One line of the \<^verbatim>\<open>items\<close> array of \<^verbatim>\<open>POST /orders\<close>, and its body.\<close>

record order_line =
  productId :: uuid
  name :: string
  price :: rat
  quantity :: int

record order_request =
  items :: "order_line list"
  total :: rat
  shippingAddress :: string

text \<open>
  The body of \<^verbatim>\<open>POST /addresses\<close> and \<^verbatim>\<open>PUT /addresses/:id\<close> is handed to the table as
  it comes, so any column may appear in it; \<open>None\<close> is a key that is absent (or null).
\<close>

record address_data =
  d_id :: "uuid option"
  d_user_id :: "uuid option"
  d_name :: "string option"
  d_street :: "string option"
  d_city :: "string option"
  d_state :: "string option"
  d_postal_code :: "string option"
  d_country :: "string option"
  d_is_default :: "bool option"
  d_created_at :: "timestamp option"

record account_request =
  email :: string
  password :: string
  account_name :: "string option"

subsection \<open>Writes and the answer of the store\<close>

text \<open>
  Every write a modelled handler sends to the hosted store. Whether the store takes a
  write is not decided by the handlers: it is the parameter \<open>st\<close> of every handler,
  which answers \<open>None\<close> when the write is applied and \<open>Some message\<close> when it is refused
  (a violated constraint of \<^verbatim>\<open>schema.sql\<close>, a lost connection). Where a handler looks at
  the error of a write, the refusal is a branch of its model; where it does not, the
  refused write is skipped silently. A read is answered from the tables as they are.
\<close>

datatype dbwrite =
    AuthCreateUser string string
  | InsertUser user_row
  | UpdateStock uuid int timestamp
  | InsertOrder order_row
  | InsertOrderItems "order_item_row list"
  | InsertLog log_row
  | DeleteCart uuid
  | UpdateOrderStatus uuid string timestamp uuid
  | ClearDefault uuid "uuid option"
  | InsertAddress address_row
  | UpdateAddress uuid uuid address_data
  | UpdateCartQuantity uuid int
  | InsertCartItem cart_row

type_synonym storage = "db \<Rightarrow> dbwrite \<Rightarrow> string option"

text \<open>The store that applies every write.\<close>

definition no_faults :: storage where
  "no_faults s w = None"

subsection \<open>Responses\<close>

record log_entry =
  e_id :: uuid
  e_type :: string
  userId :: "uuid option"
  userEmail :: "string option"
  e_timestamp :: timestamp
  orderId :: "json option"
  totalAmount :: "json option"
  itemCount :: "json option"
  previousStatus :: "json option"
  newStatus :: "json option"

record statistics =
  totalRevenue_of :: rat
  totalOrders :: nat
  pendingOrders :: nat
  completedOrders :: nat
  cancelledOrders :: nat
  totalProducts :: nat
  totalCategories :: nat
  totalUsers :: nat

datatype payload =
    ErrorBody string
  | UserBody user_row
  | CreatedUserBody user_row
  | AddressBody address_row
  | ItemBody product_row int
  | OrderBody order_row "order_line list"
  | LogsBody "log_entry list"
  | AnalyticsBody statistics "product_row list" "(order_row \<times> order_item_row list) list" "(int \<times> rat) list"
  | OtherBody string

datatype response = Json nat payload

fun status_code :: "response \<Rightarrow> nat" where
  "status_code (Json code body) = code"

section \<open>Helpers of the platform\<close>

text \<open>\<^verbatim>\<open>.single()\<close>: the row when the query has exactly one, no data otherwise.\<close>

fun single :: "'a list \<Rightarrow> 'a option" where
  "single [x] = Some x"
| "single xs = None"

text \<open>\<^verbatim>\<open>gen_random_uuid()\<close>: an identifier no row of the table has yet.\<close>

definition fresh_id :: "uuid list \<Rightarrow> uuid" where
  "fresh_id ids = Suc (fold max ids 0)"

fun starts_with :: "string \<Rightarrow> string \<Rightarrow> bool" where
  "starts_with [] cs = True"
| "starts_with (p # ps) [] = False"
| "starts_with (p # ps) (c # cs) = (p = c \<and> starts_with ps cs)"

text \<open>\<^verbatim>\<open>String.prototype.replace\<close> with a string pattern: the first occurrence only.\<close>

fun js_replace :: "string \<Rightarrow> string \<Rightarrow> string \<Rightarrow> string" where
  "js_replace pat rep [] = (if pat = [] then rep else [])"
| "js_replace pat rep (c # cs) =
     (if starts_with pat (c # cs) then rep @ drop (length pat) (c # cs)
      else c # js_replace pat rep cs)"

text \<open>
  \<^verbatim>\<open>toLowerCase\<close> on the letters A to Z. No other character lower-cases to a character
  of \<^verbatim>\<open>admin@tawsil.com\<close>, the only string the result is compared with.
\<close>

definition lower_char :: "char \<Rightarrow> char" where
  "lower_char c =
     (let n = (of_char c :: nat) in if 65 \<le> n \<and> n \<le> 90 then char_of (n + 32) else c)"

definition toLowerCase :: "string \<Rightarrow> string" where
  "toLowerCase cs = map lower_char cs"

section \<open>Authentication and the stored role\<close>

definition verifyUser :: "db \<Rightarrow> string option \<Rightarrow> auth_user option" where
  "verifyUser s authHeader =
     (case authHeader of
        None \<Rightarrow> None
      | Some h \<Rightarrow> if h = [] then None else sessions s (js_replace ''Bearer '' [] h))"

text \<open>
  The result is the thrown error, or the row with the state after the insert.
\<close>

definition getOrCreateUserRecord ::
  "storage \<Rightarrow> timestamp \<Rightarrow> db \<Rightarrow> uuid \<Rightarrow> string option \<Rightarrow> string + user_row \<times> db" where
  "getOrCreateUserRecord st now s user_id user_email =
     (case single (filter (\<lambda>u. u_id u = user_id) (users s)) of
        Some existingUser \<Rightarrow> Inr (existingUser, s)
      | None \<Rightarrow>
          let role = (if map_option toLowerCase user_email = Some ''admin@tawsil.com''
                      then ''admin'' else ''user'');
              newUser = \<lparr>u_id = user_id, u_email = user_email, u_role = role,
                         u_name = None, u_phone = None, u_created_at = now\<rparr>
          in (case st s (InsertUser newUser) of
                Some err \<Rightarrow> Inl err
              | None \<Rightarrow> Inr (newUser, s\<lparr>users := users s @ [newUser]\<rparr>)))"

section \<open>Analytics: the revenue sum\<close>

text \<open>
  The \<^verbatim>\<open>reduce\<close> of \<^verbatim>\<open>GET /admin/analytics\<close> over the rows of \<^verbatim>\<open>orders\<close>;
  \<^verbatim>\<open>order.total || 0\<close> is \<open>0\<close> when the total is \<open>0\<close> and the total otherwise.
\<close>

definition totalRevenue :: "order_row list \<Rightarrow> rat" where
  "totalRevenue rows =
     fold (\<lambda>order sum.
             if o_status order \<noteq> ''cancelled''
             then sum + (if o_total order = 0 then 0 else o_total order)
             else sum) rows 0"

section \<open>The handlers\<close>

definition unauthorized :: response where
  "unauthorized = Json 401 (ErrorBody ''Unauthorized'')"

definition forbidden :: response where
  "forbidden = Json 403 (ErrorBody ''Admin access required'')"

text \<open>The answer of the web framework when a handler throws.\<close>

definition internal_error :: response where
  "internal_error = Json 500 (ErrorBody ''Internal Server Error'')"

text \<open>The message of the store when \<^verbatim>\<open>.single()\<close> does not find exactly one row.\<close>

definition no_single_row :: string where
  "no_single_row = ''JSON object requested, multiple (or no) rows returned''"

text \<open>
  The opening of every handler that wants a signed-in user, and of every handler that
  wants an administrator: each of them repeats these lines before its own work, here
  the continuation \<open>body\<close>.
\<close>

definition with_user ::
  "db \<Rightarrow> string option \<Rightarrow> (auth_user \<Rightarrow> response \<times> db) \<Rightarrow> response \<times> db" where
  "with_user s authHeader body =
     (case verifyUser s authHeader of
        None \<Rightarrow> (unauthorized, s)
      | Some user \<Rightarrow> body user)"

definition with_admin ::
  "storage \<Rightarrow> timestamp \<Rightarrow> db \<Rightarrow> string option \<Rightarrow> (auth_user \<Rightarrow> db \<Rightarrow> response \<times> db)
     \<Rightarrow> response \<times> db" where
  "with_admin st now s authHeader body =
     with_user s authHeader (\<lambda>user.
       case getOrCreateUserRecord st now s (au_id user) (au_email user) of
         Inl err \<Rightarrow> (internal_error, s)
       | Inr (userData, s') \<Rightarrow>
           if u_role userData \<noteq> ''admin'' then (forbidden, s') else body user s')"

text \<open>A write whose error the handler does not look at: refused, the state stays.\<close>

definition unchecked_write :: "storage \<Rightarrow> db \<Rightarrow> dbwrite \<Rightarrow> db \<Rightarrow> db" where
  "unchecked_write st s w s' = (case st s w of None \<Rightarrow> s' | Some err \<Rightarrow> s)"

subsection \<open>\<^verbatim>\<open>POST /create-admin\<close> and \<^verbatim>\<open>GET /user\<close>\<close>

fun js_includes :: "string \<Rightarrow> string \<Rightarrow> bool" where
  "js_includes [] pat = (pat = [])"
| "js_includes (c # cs) pat = (starts_with pat (c # cs) \<or> js_includes cs pat)"

definition post_create_admin ::
  "storage \<Rightarrow> timestamp \<Rightarrow> account_request \<Rightarrow> db \<Rightarrow> response \<times> db" where
  "post_create_admin st now req s =
     (case st s (AuthCreateUser (email req) (password req)) of
        Some msg \<Rightarrow>
          if js_includes msg ''already registered''
          then (Json 400 (ErrorBody ''User already exists''), s)
          else (Json 400 (ErrorBody msg), s)
      | None \<Rightarrow>
          let account = \<lparr>au_id = fresh_id (map au_id (accounts s)), au_email = Some (email req)\<rparr>;
              s1 = s\<lparr>accounts := accounts s @ [account]\<rparr>;
              row = \<lparr>u_id = au_id account, u_email = Some (email req), u_role = ''admin'',
                     u_name = account_name req, u_phone = None, u_created_at = now\<rparr>
          in (case st s1 (InsertUser row) of
                Some msg \<Rightarrow> (Json 400 (ErrorBody msg), s1)
              | None \<Rightarrow> (Json 201 (CreatedUserBody row), s1\<lparr>users := users s1 @ [row]\<rparr>)))"

definition get_user :: "storage \<Rightarrow> timestamp \<Rightarrow> string option \<Rightarrow> db \<Rightarrow> response \<times> db" where
  "get_user st now authHeader s =
     with_user s authHeader (\<lambda>user.
       case getOrCreateUserRecord st now s (au_id user) (au_email user) of
         Inl err \<Rightarrow> (internal_error, s)
       | Inr (userData, s') \<Rightarrow> (Json 200 (UserBody userData), s'))"

subsection \<open>\<^verbatim>\<open>POST /addresses\<close> and \<^verbatim>\<open>PUT /addresses/:id\<close>\<close>

text \<open>
  \<^verbatim>\<open>update({is_default: false}).eq('user_id', user)\<close>, with \<^verbatim>\<open>.neq('id', except)\<close>
  when \<open>except\<close> is given.
\<close>

definition clear_default :: "uuid \<Rightarrow> uuid option \<Rightarrow> address_row list \<Rightarrow> address_row list" where
  "clear_default user except rows =
     map (\<lambda>a. if a_user_id a = user \<and> Some (a_id a) \<noteq> except
              then a\<lparr>a_is_default := False\<rparr> else a) rows"

definition new_address :: "timestamp \<Rightarrow> uuid \<Rightarrow> uuid \<Rightarrow> address_data \<Rightarrow> address_row" where
  "new_address now fresh user d =
     \<lparr>a_id = (case d_id d of Some i \<Rightarrow> i | None \<Rightarrow> fresh),
      a_user_id = user,
      a_name = d_name d, a_street = d_street d, a_city = d_city d, a_state = d_state d,
      a_postal_code = d_postal_code d, a_country = d_country d,
      a_is_default = (case d_is_default d of Some b \<Rightarrow> b | None \<Rightarrow> False),
      a_created_at = (case d_created_at d of Some t \<Rightarrow> t | None \<Rightarrow> now)\<rparr>"

definition apply_address_data :: "address_data \<Rightarrow> address_row \<Rightarrow> address_row" where
  "apply_address_data d a =
     \<lparr>a_id = (case d_id d of Some i \<Rightarrow> i | None \<Rightarrow> a_id a),
      a_user_id = (case d_user_id d of Some u \<Rightarrow> u | None \<Rightarrow> a_user_id a),
      a_name = (case d_name d of Some v \<Rightarrow> Some v | None \<Rightarrow> a_name a),
      a_street = (case d_street d of Some v \<Rightarrow> Some v | None \<Rightarrow> a_street a),
      a_city = (case d_city d of Some v \<Rightarrow> Some v | None \<Rightarrow> a_city a),
      a_state = (case d_state d of Some v \<Rightarrow> Some v | None \<Rightarrow> a_state a),
      a_postal_code = (case d_postal_code d of Some v \<Rightarrow> Some v | None \<Rightarrow> a_postal_code a),
      a_country = (case d_country d of Some v \<Rightarrow> Some v | None \<Rightarrow> a_country a),
      a_is_default = (case d_is_default d of Some b \<Rightarrow> b | None \<Rightarrow> a_is_default a),
      a_created_at = (case d_created_at d of Some t \<Rightarrow> t | None \<Rightarrow> a_created_at a)\<rparr>"

definition post_addresses ::
  "storage \<Rightarrow> timestamp \<Rightarrow> string option \<Rightarrow> address_data \<Rightarrow> db \<Rightarrow> response \<times> db" where
  "post_addresses st now authHeader addressData s =
     with_user s authHeader (\<lambda>user.
       let s1 = (if d_is_default addressData = Some True
                 then unchecked_write st s (ClearDefault (au_id user) None)
                        (s\<lparr>addresses := clear_default (au_id user) None (addresses s)\<rparr>)
                 else s);
           row = new_address now (fresh_id (map a_id (addresses s1))) (au_id user) addressData
       in (case st s1 (InsertAddress row) of
             Some msg \<Rightarrow> (Json 400 (ErrorBody msg), s1)
           | None \<Rightarrow> (Json 201 (AddressBody row), s1\<lparr>addresses := addresses s1 @ [row]\<rparr>)))"

text \<open>
  An update read back with \<^verbatim>\<open>.single()\<close> is applied when exactly one row matches; the
  store answers with an error and changes nothing otherwise.
\<close>

definition put_address ::
  "storage \<Rightarrow> timestamp \<Rightarrow> string option \<Rightarrow> uuid \<Rightarrow> address_data \<Rightarrow> db \<Rightarrow> response \<times> db" where
  "put_address st now authHeader addressId addressData s =
     with_user s authHeader (\<lambda>user.
       let s1 = (if d_is_default addressData = Some True
                 then unchecked_write st s (ClearDefault (au_id user) (Some addressId))
                        (s\<lparr>addresses := clear_default (au_id user) (Some addressId) (addresses s)\<rparr>)
                 else s)
       in (case st s1 (UpdateAddress addressId (au_id user) addressData) of
             Some msg \<Rightarrow> (Json 400 (ErrorBody msg), s1)
           | None \<Rightarrow>
               (case single (filter (\<lambda>a. a_id a = addressId \<and> a_user_id a = au_id user)
                               (addresses s1)) of
                  None \<Rightarrow> (Json 400 (ErrorBody no_single_row), s1)
                | Some a \<Rightarrow>
                    (Json 200 (AddressBody (apply_address_data addressData a)),
                     s1\<lparr>addresses :=
                          map (\<lambda>r. if a_id r = addressId \<and> a_user_id r = au_id user
                                   then apply_address_data addressData r else r)
                              (addresses s1)\<rparr>))))"

subsection \<open>\<^verbatim>\<open>POST /cart\<close>\<close>

text \<open>
  The reply joins the cart row with its product; \<^verbatim>\<open>data.product.id\<close> throws when the
  product is gone. The requested quantity is an integer, on which \<^verbatim>\<open>parseInt\<close> is the
  identity.
\<close>

definition item_response :: "nat \<Rightarrow> db \<Rightarrow> cart_row \<Rightarrow> response \<times> db" where
  "item_response code s row =
     (case single (filter (\<lambda>p. p_id p = c_product_id row) (products s)) of
        None \<Rightarrow> (internal_error, s)
      | Some product \<Rightarrow> (Json code (ItemBody product (c_quantity row)), s))"

definition post_cart ::
  "storage \<Rightarrow> timestamp \<Rightarrow> string option \<Rightarrow> uuid \<Rightarrow> int \<Rightarrow> db \<Rightarrow> response \<times> db" where
  "post_cart st now authHeader pid qty s =
     with_user s authHeader (\<lambda>user.
       case single (filter (\<lambda>i. c_user_id i = au_id user \<and> c_product_id i = pid)
                      (cart_items s)) of
         Some existingItem \<Rightarrow>
           (case st s (UpdateCartQuantity (c_id existingItem) (c_quantity existingItem + qty)) of
              Some msg \<Rightarrow> (Json 400 (ErrorBody msg), s)
            | None \<Rightarrow>
                (case single (filter (\<lambda>i. c_id i = c_id existingItem) (cart_items s)) of
                   None \<Rightarrow> (Json 400 (ErrorBody no_single_row), s)
                 | Some row \<Rightarrow>
                     let data = row\<lparr>c_quantity := c_quantity existingItem + qty\<rparr>
                     in item_response 200
                          (s\<lparr>cart_items :=
                               map (\<lambda>i. if c_id i = c_id existingItem
                                        then i\<lparr>c_quantity := c_quantity existingItem + qty\<rparr>
                                        else i) (cart_items s)\<rparr>)
                          data))
       | None \<Rightarrow>
           let row = \<lparr>c_id = fresh_id (map c_id (cart_items s)), c_user_id = au_id user,
                      c_product_id = pid, c_quantity = qty, c_created_at = now\<rparr>
           in (case st s (InsertCartItem row) of
                 Some msg \<Rightarrow> (Json 400 (ErrorBody msg), s)
               | None \<Rightarrow> item_response 201 (s\<lparr>cart_items := cart_items s @ [row]\<rparr>) row))"

subsection \<open>\<^verbatim>\<open>POST /orders\<close>\<close>

text \<open>
  \<^verbatim>\<open>update({stock, updated_at}).eq('id', pid)\<close> on \<^verbatim>\<open>products\<close>.
\<close>

definition set_stock :: "uuid \<Rightarrow> int \<Rightarrow> timestamp \<Rightarrow> product_row list \<Rightarrow> product_row list" where
  "set_stock pid n now rows =
     map (\<lambda>p. if p_id p = pid then p\<lparr>p_stock := n, p_updated_at := now\<rparr> else p) rows"

text \<open>
  The loop over the lines: \<open>Some\<close> response when a line makes the handler return, with
  the state as the lines before it left it.
\<close>

fun check_lines :: "storage \<Rightarrow> timestamp \<Rightarrow> order_line list \<Rightarrow> db \<Rightarrow> response option \<times> db" where
  "check_lines st now [] s = (None, s)"
| "check_lines st now (item # rest) s =
     (case single (filter (\<lambda>p. p_id p = productId item) (products s)) of
        None \<Rightarrow> (Some (Json 404 (ErrorBody (''Product '' @ name item @ '' not found''))), s)
      | Some product \<Rightarrow>
          if p_stock product < quantity item
          then (Some (Json 400 (ErrorBody (''Insufficient stock for '' @ name item))), s)
          else (case st s (UpdateStock (productId item) (p_stock product - quantity item) now) of
                  Some err \<Rightarrow> (Some (Json 400 (ErrorBody ''Failed to update stock'')), s)
                | None \<Rightarrow>
                    check_lines st now rest
                      (s\<lparr>products := set_stock (productId item)
                                        (p_stock product - quantity item) now (products s)\<rparr>)))"

definition new_order_items :: "uuid \<Rightarrow> uuid \<Rightarrow> order_line list \<Rightarrow> order_item_row list" where
  "new_order_items order fresh ls =
     map (\<lambda>(k, item). \<lparr>i_id = k, i_order_id = order, i_product_id = productId item,
                        i_name = name item, i_price = price item, i_quantity = quantity item\<rparr>)
         (enumerate fresh ls)"

definition order_response :: "db \<Rightarrow> order_row \<Rightarrow> payload" where
  "order_response s order =
     OrderBody order
       (map (\<lambda>item. \<lparr>productId = i_product_id item, name = i_name item,
                      price = i_price item, quantity = i_quantity item\<rparr>)
            (filter (\<lambda>item. i_order_id item = o_id order) (order_items s)))"

definition new_log ::
  "db \<Rightarrow> timestamp \<Rightarrow> string \<Rightarrow> auth_user \<Rightarrow> (string \<times> json) list \<Rightarrow> log_row" where
  "new_log s now type user details =
     \<lparr>l_id = fresh_id (map l_id (activity_logs s)), l_type = type, l_user_id = Some (au_id user),
      l_user_email = au_email user, l_details = Some details, l_created_at = now\<rparr>"

definition insert_log :: "storage \<Rightarrow> db \<Rightarrow> log_row \<Rightarrow> db" where
  "insert_log st s row =
     unchecked_write st s (InsertLog row) (s\<lparr>activity_logs := activity_logs s @ [row]\<rparr>)"

definition post_orders ::
  "storage \<Rightarrow> timestamp \<Rightarrow> string option \<Rightarrow> order_request \<Rightarrow> db \<Rightarrow> response \<times> db" where
  "post_orders st now authHeader req s =
     with_user s authHeader (\<lambda>user.
       case check_lines st now (items req) s of
         (Some early, s1) \<Rightarrow> (early, s1)
       | (None, s1) \<Rightarrow>
           let order = \<lparr>o_id = fresh_id (map o_id (orders s1)), o_user_id = au_id user,
                        o_user_email = au_email user, o_total = total req,
                        o_status = ''pending'', o_shipping_address = shippingAddress req,
                        o_created_at = now, o_updated_at = now, o_updated_by = None\<rparr>
           in (case st s1 (InsertOrder order) of
                 Some msg \<Rightarrow> (Json 400 (ErrorBody msg), s1)
               | None \<Rightarrow>
                   let s2 = s1\<lparr>orders := orders s1 @ [order]\<rparr>;
                       orderItems = new_order_items (o_id order)
                                      (fresh_id (map i_id (order_items s2))) (items req)
                   in (case st s2 (InsertOrderItems orderItems) of
                         Some msg \<Rightarrow> (Json 400 (ErrorBody msg), s2)
                       | None \<Rightarrow>
                           let s3 = s2\<lparr>order_items := order_items s2 @ orderItems\<rparr>;
                               itemCount = fold (\<lambda>i sum. sum + (if quantity i = 0 then 0 else quantity i))
                                             (items req) 0;
                               s4 = insert_log st s3
                                      (new_log s3 now ''order_created'' user
                                         [(''order_id'', JId (o_id order)),
                                          (''total_amount'', JNum (total req)),
                                          (''item_count'', JNum (of_int itemCount))]);
                               s5 = unchecked_write st s4 (DeleteCart (au_id user))
                                      (s4\<lparr>cart_items :=
                                            filter (\<lambda>c. c_user_id c \<noteq> au_id user) (cart_items s4)\<rparr>)
                           in (case single (filter (\<lambda>r. o_id r = o_id order) (orders s5)) of
                                 None \<Rightarrow> (internal_error, s5)
                               | Some completeOrder \<Rightarrow>
                                   (Json 201 (order_response s5 completeOrder), s5)))))"

subsection \<open>\<^verbatim>\<open>PUT /orders/:id/status\<close>\<close>

text \<open>The restocking loop of a cancellation; a line whose product is gone is skipped.\<close>

fun restock :: "storage \<Rightarrow> timestamp \<Rightarrow> order_item_row list \<Rightarrow> db \<Rightarrow> db" where
  "restock st now [] s = s"
| "restock st now (item # rest) s =
     (case single (filter (\<lambda>p. p_id p = i_product_id item) (products s)) of
        None \<Rightarrow> restock st now rest s
      | Some product \<Rightarrow>
          restock st now rest
            (unchecked_write st s (UpdateStock (i_product_id item) (p_stock product + i_quantity item) now)
               (s\<lparr>products := set_stock (i_product_id item)
                                 (p_stock product + i_quantity item) now (products s)\<rparr>)))"

definition put_order_status ::
  "storage \<Rightarrow> timestamp \<Rightarrow> string option \<Rightarrow> uuid \<Rightarrow> string \<Rightarrow> db \<Rightarrow> response \<times> db" where
  "put_order_status st now authHeader order_id status s0 =
     with_admin st now s0 authHeader (\<lambda>user s.
       case single (filter (\<lambda>r. o_id r = order_id) (orders s)) of
         None \<Rightarrow> (Json 404 (ErrorBody ''Order not found''), s)
       | Some order \<Rightarrow>
           let previousStatus = o_status order;
               s1 = (if status = ''cancelled'' \<and> previousStatus \<noteq> ''cancelled''
                     then restock st now
                            (filter (\<lambda>i. i_order_id i = order_id) (order_items s)) s
                     else s)
           in (case st s1 (UpdateOrderStatus order_id status now (au_id user)) of
                 Some msg \<Rightarrow> (Json 400 (ErrorBody msg), s1)
               | None \<Rightarrow>
                   (case single (filter (\<lambda>r. o_id r = order_id) (orders s1)) of
                      None \<Rightarrow> (Json 400 (ErrorBody no_single_row), s1)
                    | Some row \<Rightarrow>
                        let updatedOrder = row\<lparr>o_status := status, o_updated_at := now,
                                               o_updated_by := Some (au_id user)\<rparr>;
                            s2 = s1\<lparr>orders :=
                                      map (\<lambda>r. if o_id r = order_id
                                               then r\<lparr>o_status := status, o_updated_at := now,
                                                      o_updated_by := Some (au_id user)\<rparr>
                                               else r) (orders s1)\<rparr>;
                            s3 = insert_log st s2
                                   (new_log s2 now ''order_status_updated'' user
                                      [(''order_id'', JId order_id),
                                       (''previous_status'', JStr previousStatus),
                                       (''newStatus'', JStr status)])
                        in (Json 200 (order_response s3 updatedOrder), s3))))"

subsection \<open>\<^verbatim>\<open>GET /admin/analytics\<close> and \<^verbatim>\<open>GET /admin/logs\<close>\<close>

text \<open>\<^verbatim>\<open>.order(key, {ascending: false})\<close>.\<close>

definition newest_first :: "('a \<Rightarrow> timestamp) \<Rightarrow> 'a list \<Rightarrow> 'a list" where
  "newest_first key rows = rev (sort_key key rows)"

text \<open>The calendar day of a timestamp: what the date part of its ISO string names.\<close>

definition day_of :: "timestamp \<Rightarrow> int" where
  "day_of t = int (t div 86400)"

definition dayRevenue :: "order_row list \<Rightarrow> int \<Rightarrow> rat" where
  "dayRevenue rows day =
     fold (\<lambda>order sum.
             if day_of (o_created_at order) = day \<and> o_status order \<noteq> ''cancelled''
             then sum + (if o_total order = 0 then 0 else o_total order)
             else sum) rows 0"

definition get_admin_analytics ::
  "storage \<Rightarrow> timestamp \<Rightarrow> string option \<Rightarrow> db \<Rightarrow> response \<times> db" where
  "get_admin_analytics st now authHeader s0 =
     with_admin st now s0 authHeader (\<lambda>user s.
       let rows = orders s;
           stats = \<lparr>totalRevenue_of = totalRevenue rows,
                    totalOrders = length rows,
                    pendingOrders = length (filter (\<lambda>r. o_status r = ''pending'') rows),
                    completedOrders = length (filter (\<lambda>r. o_status r = ''delivered'') rows),
                    cancelledOrders = length (filter (\<lambda>r. o_status r = ''cancelled'') rows),
                    totalProducts = length (products s),
                    totalCategories = length (categories s),
                    totalUsers = length (filter (\<lambda>u. u_role u = ''user'') (users s))\<rparr>;
           lowStockProducts = filter (\<lambda>p. p_stock p < 10) (products s);
           recentOrders = map (\<lambda>r. (r, filter (\<lambda>i. i_order_id i = o_id r) (order_items s)))
                            (take 10 (newest_first o_created_at rows));
           last7Days = map (\<lambda>i. (day_of now - i, dayRevenue rows (day_of now - i)))
                         [6, 5, 4, 3, 2, 1, 0]
       in (Json 200 (AnalyticsBody stats lowStockProducts recentOrders last7Days), s))"

text \<open>\<^verbatim>\<open>log.details?.key\<close>: \<open>None\<close> is \<^verbatim>\<open>undefined\<close>.\<close>

definition detail :: "log_row \<Rightarrow> string \<Rightarrow> json option" where
  "detail row key = (case l_details row of None \<Rightarrow> None | Some d \<Rightarrow> map_of d key)"

definition transformedLog :: "log_row \<Rightarrow> log_entry" where
  "transformedLog row =
     \<lparr>e_id = l_id row, e_type = l_type row, userId = l_user_id row,
      userEmail = l_user_email row, e_timestamp = l_created_at row,
      orderId = detail row ''order_id'',
      totalAmount = detail row ''total_amount'',
      itemCount = detail row ''item_count'',
      previousStatus = detail row ''previous_status'',
      newStatus = detail row ''new_status''\<rparr>"

definition get_admin_logs ::
  "storage \<Rightarrow> timestamp \<Rightarrow> string option \<Rightarrow> db \<Rightarrow> response \<times> db" where
  "get_admin_logs st now authHeader s0 =
     with_admin st now s0 authHeader (\<lambda>user s.
       (Json 200 (LogsBody (map transformedLog
                              (take 100 (newest_first l_created_at (activity_logs s))))), s))"

subsection \<open>The routes\<close>

text \<open>
  Every route of the application. A route whose own work no property below depends on
  carries no argument here: its work after the opening checks is the parameter
  \<open>rest\<close> of \<open>handle\<close>, given the signed-in user when the route asks for one.
\<close>

datatype endpoint =
    PostSignup | PostCreateAdmin account_request
  | GetUser | GetUserRole | PutUserProfile
  | GetUserAddresses | GetAddresses | PostAddresses address_data
  | PutAddress uuid address_data | DeleteAddress
  | GetCategories | PostCategories | PutCategory | DeleteCategory
  | GetProducts | GetProduct | PostProducts | PutProduct | DeleteProduct
  | GetCart | PostCart uuid int | PutCart | DeleteCartItem
  | GetWishlist | PostWishlist | DeleteWishlist
  | GetOrders | GetAdminOrders | PostOrders order_request | PutOrderStatus uuid string
  | GetAdminAnalytics | GetAdminLogs

fun handle ::
  "storage \<Rightarrow> (endpoint \<Rightarrow> auth_user option \<Rightarrow> db \<Rightarrow> response \<times> db) \<Rightarrow> timestamp
     \<Rightarrow> string option \<Rightarrow> endpoint \<Rightarrow> db \<Rightarrow> response \<times> db" where
  "handle st rest now h PostSignup s = rest PostSignup None s"
| "handle st rest now h (PostCreateAdmin req) s = post_create_admin st now req s"
| "handle st rest now h GetUser s = get_user st now h s"
| "handle st rest now h GetUserRole s = with_user s h (\<lambda>u. rest GetUserRole (Some u) s)"
| "handle st rest now h PutUserProfile s = with_user s h (\<lambda>u. rest PutUserProfile (Some u) s)"
| "handle st rest now h GetUserAddresses s = with_user s h (\<lambda>u. rest GetUserAddresses (Some u) s)"
| "handle st rest now h GetAddresses s = with_user s h (\<lambda>u. rest GetAddresses (Some u) s)"
| "handle st rest now h (PostAddresses d) s = post_addresses st now h d s"
| "handle st rest now h (PutAddress i d) s = put_address st now h i d s"
| "handle st rest now h DeleteAddress s = with_user s h (\<lambda>u. rest DeleteAddress (Some u) s)"
| "handle st rest now h GetCategories s = rest GetCategories None s"
| "handle st rest now h PostCategories s = with_admin st now s h (\<lambda>u. rest PostCategories (Some u))"
| "handle st rest now h PutCategory s = with_admin st now s h (\<lambda>u. rest PutCategory (Some u))"
| "handle st rest now h DeleteCategory s = with_admin st now s h (\<lambda>u. rest DeleteCategory (Some u))"
| "handle st rest now h GetProducts s = rest GetProducts None s"
| "handle st rest now h GetProduct s = rest GetProduct None s"
| "handle st rest now h PostProducts s = with_admin st now s h (\<lambda>u. rest PostProducts (Some u))"
| "handle st rest now h PutProduct s = with_admin st now s h (\<lambda>u. rest PutProduct (Some u))"
| "handle st rest now h DeleteProduct s = with_admin st now s h (\<lambda>u. rest DeleteProduct (Some u))"
| "handle st rest now h GetCart s = with_user s h (\<lambda>u. rest GetCart (Some u) s)"
| "handle st rest now h (PostCart pid qty) s = post_cart st now h pid qty s"
| "handle st rest now h PutCart s = with_user s h (\<lambda>u. rest PutCart (Some u) s)"
| "handle st rest now h DeleteCartItem s = with_user s h (\<lambda>u. rest DeleteCartItem (Some u) s)"
| "handle st rest now h GetWishlist s = with_user s h (\<lambda>u. rest GetWishlist (Some u) s)"
| "handle st rest now h PostWishlist s = with_user s h (\<lambda>u. rest PostWishlist (Some u) s)"
| "handle st rest now h DeleteWishlist s = with_user s h (\<lambda>u. rest DeleteWishlist (Some u) s)"
| "handle st rest now h GetOrders s = with_user s h (\<lambda>u. rest GetOrders (Some u) s)"
| "handle st rest now h GetAdminOrders s = with_admin st now s h (\<lambda>u. rest GetAdminOrders (Some u))"
| "handle st rest now h (PostOrders req) s = post_orders st now h req s"
| "handle st rest now h (PutOrderStatus i status) s = put_order_status st now h i status s"
| "handle st rest now h GetAdminAnalytics s = get_admin_analytics st now h s"
| "handle st rest now h GetAdminLogs s = get_admin_logs st now h s"

section \<open>Notions the properties are stated with\<close>

text \<open>
  The stock of a product: that of its row, when the table has exactly one row with the
  identifier (the handlers read it with \<^verbatim>\<open>.single()\<close>).
\<close>

definition stock_of :: "product_row list \<Rightarrow> uuid \<Rightarrow> int option" where
  "stock_of rows pid = map_option p_stock (single (filter (\<lambda>p. p_id p = pid) rows))"

text \<open>What the lines of a request ask for of one product, all lines together.\<close>

definition ordered :: "order_line list \<Rightarrow> uuid \<Rightarrow> int" where
  "ordered ls pid = sum_list (map quantity (filter (\<lambda>l. productId l = pid) ls))"

text \<open>
  Every line of \<open>ls\<close> names a product of the table and asks for at most its stock less
  what the lines before it ask for of the same product; \<open>seen\<close> holds the lines before.
\<close>

fun in_stock :: "product_row list \<Rightarrow> order_line list \<Rightarrow> order_line list \<Rightarrow> bool" where
  "in_stock rows seen [] = True"
| "in_stock rows seen (l # ls) =
     ((case stock_of rows (productId l) of
         None \<Rightarrow> False
       | Some n \<Rightarrow> quantity l \<le> n - ordered seen (productId l))
      \<and> in_stock rows (seen @ [l]) ls)"

text \<open>The sum of price times quantity over order-line rows.\<close>

definition lines_total :: "order_item_row list \<Rightarrow> rat" where
  "lines_total rows = sum_list (map (\<lambda>i. i_price i * of_int (i_quantity i)) rows)"

text \<open>What the lines of an order hold of one product, all lines together.\<close>

definition returned :: "order_item_row list \<Rightarrow> uuid \<Rightarrow> int" where
  "returned rows pid = sum_list (map i_quantity (filter (\<lambda>i. i_product_id i = pid) rows))"

text \<open>The role in the row of a user, when the table has exactly one row for the user.\<close>

definition stored_role :: "db \<Rightarrow> uuid \<Rightarrow> string option" where
  "stored_role s uid = map_option u_role (single (filter (\<lambda>u. u_id u = uid) (users s)))"

text \<open>The routes the specification opens to everyone, and its administrator routes.\<close>

fun public_endpoint :: "endpoint \<Rightarrow> bool" where
  "public_endpoint PostSignup = True"
| "public_endpoint GetCategories = True"
| "public_endpoint GetProducts = True"
| "public_endpoint GetProduct = True"
| "public_endpoint ep = False"

fun admin_endpoint :: "endpoint \<Rightarrow> bool" where
  "admin_endpoint PostCategories = True"
| "admin_endpoint PutCategory = True"
| "admin_endpoint DeleteCategory = True"
| "admin_endpoint PostProducts = True"
| "admin_endpoint PutProduct = True"
| "admin_endpoint DeleteProduct = True"
| "admin_endpoint GetAdminOrders = True"
| "admin_endpoint (PutOrderStatus i status) = True"
| "admin_endpoint GetAdminAnalytics = True"
| "admin_endpoint GetAdminLogs = True"
| "admin_endpoint ep = False"

text \<open>What clearing the default does to one row.\<close>

definition clear_row :: "uuid \<Rightarrow> uuid option \<Rightarrow> address_row \<Rightarrow> address_row" where
  "clear_row u except a =
     (if a_user_id a = u \<and> Some (a_id a) \<noteq> except then a\<lparr>a_is_default := False\<rparr> else a)"


section \<open>An example shop\<close>

text \<open>
  A customer and an administrator with their sessions, two products with 5 in stock each,
  and variants of the shop with an order, a cart, two addresses and two users who have
  signed in but have no row in \<^verbatim>\<open>users\<close> yet.
\<close>

definition ann :: auth_user where
  "ann = \<lparr>au_id = 1, au_email = Some ''ann@example.com''\<rparr>"

definition boss :: auth_user where
  "boss = \<lparr>au_id = 2, au_email = Some ''root@example.com''\<rparr>"

definition tea :: product_row where
  "tea = \<lparr>p_id = 10, p_name = ''Tea'', p_description = None, p_price = 2,
          p_category_id = None, p_image = None, p_stock = 5, p_created_by = None,
          p_created_at = 0, p_updated_at = 0\<rparr>"

definition mug :: product_row where
  "mug = \<lparr>p_id = 11, p_name = ''Mug'', p_description = None, p_price = 7,
          p_category_id = None, p_image = None, p_stock = 5, p_created_by = None,
          p_created_at = 0, p_updated_at = 0\<rparr>"

definition shop :: db where
  "shop = \<lparr>accounts = [ann, boss],
           sessions = (\<lambda>t. if t = ''TA'' then Some ann else if t = ''TR'' then Some boss else None),
           users = [\<lparr>u_id = 1, u_email = Some ''ann@example.com'', u_role = ''user'',
                     u_name = None, u_phone = None, u_created_at = 0\<rparr>,
                    \<lparr>u_id = 2, u_email = Some ''root@example.com'', u_role = ''admin'',
                     u_name = None, u_phone = None, u_created_at = 0\<rparr>],
           categories = [], products = [tea, mug], addresses = [], cart_items = [],
           wishlist_items = [], orders = [], order_items = [], activity_logs = []\<rparr>"

definition tea_line :: "int \<Rightarrow> order_line" where
  "tea_line n = \<lparr>productId = 10, name = ''Tea'', price = 2, quantity = n\<rparr>"

definition mug_line :: "int \<Rightarrow> order_line" where
  "mug_line n = \<lparr>productId = 11, name = ''Mug'', price = 7, quantity = n\<rparr>"

definition basket :: "order_line list \<Rightarrow> rat \<Rightarrow> order_request" where
  "basket ls t = \<lparr>items = ls, total = t, shippingAddress = ''1 Main Street''\<rparr>"

definition tea_order :: order_row where
  "tea_order = \<lparr>o_id = 100, o_user_id = 1, o_user_email = Some ''ann@example.com'',
                o_total = 4, o_status = ''pending'', o_shipping_address = ''1 Main Street'',
                o_created_at = 0, o_updated_at = 0, o_updated_by = None\<rparr>"

definition sold :: db where
  "sold = shop\<lparr>products := [tea\<lparr>p_stock := 3\<rparr>, mug],
               orders := [tea_order],
               order_items := [\<lparr>i_id = 200, i_order_id = 100, i_product_id = 10,
                                 i_name = ''Tea'', i_price = 2, i_quantity = 2\<rparr>]\<rparr>"

definition quiet :: "endpoint \<Rightarrow> auth_user option \<Rightarrow> db \<Rightarrow> response \<times> db" where
  "quiet ep u s = (Json 200 (OtherBody []), s)"

definition eve :: account_request where
  "eve = \<lparr>email = ''eve@example.com'', password = ''secret'', account_name = None\<rparr>"

definition eve_row :: user_row where
  "eve_row = \<lparr>u_id = 3, u_email = Some ''eve@example.com'', u_role = ''admin'',
              u_name = None, u_phone = None, u_created_at = 7\<rparr>"

definition newcomer :: auth_user where
  "newcomer = \<lparr>au_id = 5, au_email = Some ''Admin@Tawsil.COM''\<rparr>"

definition visitor :: auth_user where
  "visitor = \<lparr>au_id = 6, au_email = Some ''vic@example.com''\<rparr>"

definition visitor_row :: user_row where
  "visitor_row = \<lparr>u_id = 6, u_email = Some ''vic@example.com'', u_role = ''user'',
                  u_name = None, u_phone = None, u_created_at = 7\<rparr>"

definition open_day :: db where
  "open_day = shop\<lparr>sessions := (\<lambda>t. if t = ''TN'' then Some newcomer
                                    else if t = ''TV'' then Some visitor else None)\<rparr>"







section \<open>Properties\<close>

subsection \<open>Lists, identifiers and the opening checks\<close>

lemma single_map: "single (map f xs) = map_option f (single xs)"
  by (cases xs rule: single.cases) simp_all

lemma single_Some_iff: "single xs = Some x \<longleftrightarrow> xs = [x]"
  by (cases xs rule: single.cases) auto

lemma single_filter_holds: "single (filter P xs) = Some x \<Longrightarrow> P x"
proof -
  assume "single (filter P xs) = Some x"
  then have "filter P xs = [x]" by (simp add: single_Some_iff)
  then have "x \<in> set (filter P xs)" by simp
  then show "P x" by simp
qed



lemma filter_map_update:
  assumes "\<And>r. key (f r) = key r"
  shows "filter (\<lambda>r. key r = k) (map (\<lambda>r. if key r = k' then f r else r) rows)
           = map (\<lambda>r. if key r = k' then f r else r) (filter (\<lambda>r. key r = k) rows)"
  by (induction rows) (simp_all add: assms)

lemma fold_max_ge: "a \<le> fold max ids (a::nat)" "x \<in> set ids \<Longrightarrow> x \<le> fold max ids a"
proof -
  show "a \<le> fold max ids a"
    by (induction ids arbitrary: a) (auto intro: order_trans[OF max.cobounded2])
  show "x \<in> set ids \<Longrightarrow> x \<le> fold max ids a"
  proof (induction ids arbitrary: a)
    case Nil
    then show ?case by simp
  next
    case (Cons i ids)
    have "max i a \<le> fold max ids (max i a)"
      by (induction ids arbitrary: i a) (auto intro: order_trans[OF max.cobounded2])
    with Cons show ?case by auto
  qed
qed

lemma fresh_id_new: "fresh_id ids \<notin> set ids"
  using fold_max_ge(2)[of "fresh_id ids" ids 0] by (auto simp: fresh_id_def)

lemma filter_fresh [simp]: "filter (\<lambda>r. f r = fresh_id (map f rows)) rows = []"
proof -
  have "f r \<noteq> fresh_id (map f rows)" if "r \<in> set rows" for r
    using that fresh_id_new[of "map f rows"] by force
  then show ?thesis by (simp add: filter_empty_conv)
qed

lemma verifyUser_sessions: "sessions s' = sessions s \<Longrightarrow> verifyUser s' h = verifyUser s h"
  by (cases h) (simp_all add: verifyUser_def)

lemma verifyUser_None_iff:
  "verifyUser s authHeader = None \<longleftrightarrow>
     (case authHeader of
        None \<Rightarrow> True
      | Some h \<Rightarrow> h = [] \<or> sessions s (js_replace ''Bearer '' [] h) = None)"
  by (simp add: verifyUser_def split: option.splits)

lemma bearer_token: "js_replace ''Bearer '' [] (''Bearer '' @ token) = token"
  by simp

lemma admin_passes:
  assumes "verifyUser s authHeader = Some user" and "stored_role s (au_id user) = Some ''admin''"
  shows "with_admin st now s authHeader body = body user s"
proof -
  from assms(2) obtain row where "single (filter (\<lambda>u. u_id u = au_id user) (users s)) = Some row"
    "u_role row = ''admin''"
    by (auto simp: stored_role_def)
  then show ?thesis
    by (simp add: with_admin_def with_user_def assms(1) getOrCreateUserRecord_def)
qed

lemma role_check:
  assumes "verifyUser s authHeader = Some user" and "stored_role s (au_id user) = Some role"
  shows "with_admin st now s authHeader body
           = (if role \<noteq> ''admin'' then (forbidden, s) else body user s)"
proof -
  from assms(2) obtain row where "single (filter (\<lambda>u. u_id u = au_id user) (users s)) = Some row"
    "u_role row = role"
    by (auto simp: stored_role_def)
  then show ?thesis
    by (simp add: with_admin_def with_user_def assms(1) getOrCreateUserRecord_def)
qed

lemma getOrCreate_tables:
  "getOrCreateUserRecord st now s uid mail = Inr (row, s') \<Longrightarrow>
     products s' = products s \<and> orders s' = orders s \<and> order_items s' = order_items s"
  by (auto simp: getOrCreateUserRecord_def Let_def split: option.splits)

subsection \<open>The example shop\<close>

lemma verify_ann: "verifyUser shop (Some ''Bearer TA'') = Some ann"
  by (simp add: verifyUser_def shop_def)

lemma shop_tables:
  "products shop = [tea, mug]" "orders shop = []" "order_items shop = []"
  "activity_logs shop = []" "cart_items shop = []" "addresses shop = []"
  by (simp_all add: shop_def)

lemma catalogue:
  "p_id tea = 10" "p_stock tea = 5" "p_id mug = 11" "p_stock mug = 5"
  by (simp_all add: tea_def mug_def)

lemma sold_tables:
  "products sold = [tea\<lparr>p_stock := 3\<rparr>, mug]" "orders sold = [tea_order]"
  "order_items sold = [\<lparr>i_id = 200, i_order_id = 100, i_product_id = 10,
                         i_name = ''Tea'', i_price = 2, i_quantity = 2\<rparr>]"
  "users sold = users shop" "sessions sold = sessions shop" "activity_logs sold = []"
  by (simp_all add: sold_def shop_tables)

lemma verify_boss: "verifyUser sold (Some ''Bearer TR'') = Some boss"
  by (simp add: verifyUser_def sold_tables shop_def)

lemma boss_is_admin: "stored_role sold (au_id boss) = Some ''admin''"
  by (simp add: stored_role_def sold_tables shop_def boss_def)

lemma open_day_tables:
  "users open_day = users shop" "sessions open_day ''TN'' = Some newcomer"
  "sessions open_day ''TV'' = Some visitor" "activity_logs open_day = []"
  by (simp_all add: open_day_def shop_tables)

lemma users_shop: "map u_id (users shop) = [1, 2]"
  by (simp add: shop_def)



lemma toLowerCase_example: "toLowerCase ''Admin@Tawsil.COM'' = ''admin@tawsil.com''"
  by code_simp

subsection \<open>The revenue of the analytics\<close>

lemma revenue_fold:
  "fold (\<lambda>order sum.
           if o_status order \<noteq> ''cancelled''
           then sum + (if o_total order = 0 then 0 else o_total order)
           else sum) rows acc
   = acc + sum_list (map o_total (filter (\<lambda>order. o_status order \<noteq> ''cancelled'') rows))"
  by (induction rows arbitrary: acc) simp_all

lemma totalRevenue_snoc:
  "totalRevenue (rows @ [order])
     = totalRevenue rows + (if o_status order \<noteq> ''cancelled'' then o_total order else 0)"
  by (simp add: totalRevenue_def revenue_fold)

lemma analytics_reports_totalRevenue:
  assumes "verifyUser s authHeader = Some user" and "stored_role s (au_id user) = Some ''admin''"
  shows "\<exists>stats low recent chart.
           get_admin_analytics st now authHeader s
             = (Json 200 (AnalyticsBody stats low recent chart), s)
         \<and> totalRevenue_of stats = totalRevenue (orders s)"
  unfolding get_admin_analytics_def admin_passes[OF assms]
  by (simp add: Let_def)


subsection \<open>Placing an order\<close>

lemma filter_set_stock:
  "filter (\<lambda>p. p_id p = q) (set_stock pid n now rows)
     = map (\<lambda>p. if p_id p = pid then p\<lparr>p_stock := n, p_updated_at := now\<rparr> else p)
         (filter (\<lambda>p. p_id p = q) rows)"
  by (induction rows) (simp_all add: set_stock_def)

lemma stock_of_set_stock:
  "stock_of (set_stock pid n now rows) q
     = (if q = pid then map_option (\<lambda>m. n) (stock_of rows q) else stock_of rows q)"
proof -
  have "map (\<lambda>p. if p_id p = pid then p\<lparr>p_stock := n, p_updated_at := now\<rparr> else p)
          (filter (\<lambda>p. p_id p = q) rows)
        = (if q = pid then map (\<lambda>p. p\<lparr>p_stock := n, p_updated_at := now\<rparr>) (filter (\<lambda>p. p_id p = q) rows)
           else filter (\<lambda>p. p_id p = q) rows)"
    by (induction rows) auto
  then show ?thesis
    by (simp add: stock_of_def filter_set_stock single_map option.map_comp comp_def)
qed

lemma stock_of_SomeD:
  "stock_of rows q = Some m \<Longrightarrow>
     \<exists>product. single (filter (\<lambda>p. p_id p = q) rows) = Some product \<and> p_stock product = m"
  by (auto simp: stock_of_def)

lemma stock_shop: "stock_of (products shop) 10 = Some 5" "stock_of (products shop) 11 = Some 5"
  by (simp_all add: stock_of_def shop_tables catalogue)

lemma ordered_snoc:
  "ordered (seen @ [l]) p = ordered seen p + (if productId l = p then quantity l else 0)"
  by (simp add: ordered_def)

lemma ordered_Cons:
  "ordered (l # ls) p = (if productId l = p then quantity l else 0) + ordered ls p"
  by (simp add: ordered_def)

lemma ordered_unseen: "pid \<notin> productId ` set seen \<Longrightarrow> ordered seen pid = 0"
  by (induction seen) (simp_all add: ordered_def)

lemma in_stock_distinct:
  assumes "distinct (map productId ls)"
    and "productId ` set seen \<inter> productId ` set ls = {}"
    and "\<forall>l\<in>set ls. \<exists>n. stock_of rows (productId l) = Some n \<and> quantity l \<le> n"
  shows "in_stock rows seen ls"
  using assms
proof (induction ls arbitrary: seen)
  case Nil
  then show ?case by simp
next
  case (Cons l ls)
  from Cons.prems(2) have "productId l \<notin> productId ` set seen" by auto
  then have unseen: "ordered seen (productId l) = 0" by (rule ordered_unseen)
  from Cons.prems(3) obtain n where n: "stock_of rows (productId l) = Some n" "quantity l \<le> n"
    by auto
  have "productId ` set (seen @ [l]) \<inter> productId ` set ls = {}"
    using Cons.prems(1,2) by auto
  with Cons.IH[of "seen @ [l]"] Cons.prems(1,3) have "in_stock rows (seen @ [l]) ls" by simp
  with n unseen show ?case by simp
qed

lemma check_lines_ok:
  assumes "in_stock base seen ls"
    and "\<And>p. stock_of (products s) p = map_option (\<lambda>n. n - ordered seen p) (stock_of base p)"
  shows "\<exists>P. check_lines no_faults now ls s = (None, s\<lparr>products := P\<rparr>)
           \<and> (\<forall>p. stock_of P p = map_option (\<lambda>n. n - ordered (seen @ ls) p) (stock_of base p))"
  using assms
proof (induction ls arbitrary: s seen)
  case Nil
  have "s = s\<lparr>products := products s\<rparr>" by simp
  with Nil show ?case by (metis append_Nil2 check_lines.simps(1))
next
  case (Cons l ls)
  let ?pid = "productId l"
  from Cons.prems(1) obtain n where n: "stock_of base ?pid = Some n"
    and le: "quantity l \<le> n - ordered seen ?pid" and rest: "in_stock base (seen @ [l]) ls"
    by (auto split: option.splits)
  from Cons.prems(2)[of ?pid] n have "stock_of (products s) ?pid = Some (n - ordered seen ?pid)"
    by simp
  then obtain product where pr: "single (filter (\<lambda>p. p_id p = ?pid) (products s)) = Some product"
    and st: "p_stock product = n - ordered seen ?pid"
    by (blast dest: stock_of_SomeD)
  let ?s = "s\<lparr>products := set_stock ?pid (p_stock product - quantity l) now (products s)\<rparr>"
  have inv: "stock_of (products ?s) p = map_option (\<lambda>n. n - ordered (seen @ [l]) p) (stock_of base p)" for p
    using Cons.prems(2)[of p] n st
    by (cases "stock_of base p") (auto simp: stock_of_set_stock ordered_snoc)
  from Cons.IH[OF rest inv] obtain P where
    P: "check_lines no_faults now ls ?s = (None, ?s\<lparr>products := P\<rparr>)"
    and Q: "\<forall>p. stock_of P p = map_option (\<lambda>n. n - ordered ((seen @ [l]) @ ls) p) (stock_of base p)"
    by blast
  have "check_lines no_faults now (l # ls) s = (None, s\<lparr>products := P\<rparr>)"
    using pr st le P by (simp add: no_faults_def)
  with Q show ?case by auto
qed

lemma post_orders_success:
  assumes "verifyUser s authHeader = Some user"
    and "in_stock (products s) [] (items req)"
  shows "\<exists>P. (\<forall>p. stock_of P p
                  = map_option (\<lambda>n. n - ordered (items req) p) (stock_of (products s) p))
     \<and> post_orders no_faults now authHeader req s =
        (let order = \<lparr>o_id = fresh_id (map o_id (orders s)), o_user_id = au_id user,
                      o_user_email = au_email user, o_total = total req,
                      o_status = ''pending'', o_shipping_address = shippingAddress req,
                      o_created_at = now, o_updated_at = now, o_updated_by = None\<rparr>;
             s' = s\<lparr>products := P, orders := orders s @ [order],
                    order_items := order_items s @
                       new_order_items (o_id order) (fresh_id (map i_id (order_items s))) (items req),
                    activity_logs := activity_logs s @
                       [new_log s now ''order_created'' user
                          [(''order_id'', JId (o_id order)),
                           (''total_amount'', JNum (total req)),
                           (''item_count'', JNum (of_int (fold (\<lambda>i sum. sum + (if quantity i = 0 then 0 else quantity i)) (items req) 0)))]],
                    cart_items := filter (\<lambda>c. c_user_id c \<noteq> au_id user) (cart_items s)\<rparr>
         in (Json 201 (order_response s' order), s'))"
proof -
  have "\<And>p. stock_of (products s) p = map_option (\<lambda>n. n - ordered [] p) (stock_of (products s) p)"
    by (simp add: ordered_def option.map_ident)
  from check_lines_ok[OF assms(2) this, of now] obtain P where
    P: "check_lines no_faults now (items req) s = (None, s\<lparr>products := P\<rparr>)"
    and Q: "\<forall>p. stock_of P p = map_option (\<lambda>n. n - ordered (items req) p) (stock_of (products s) p)"
    by auto
  have "post_orders no_faults now authHeader req s = (let order = \<lparr>o_id = fresh_id (map o_id (orders s)), o_user_id = au_id user,
                      o_user_email = au_email user, o_total = total req,
                      o_status = ''pending'', o_shipping_address = shippingAddress req,
                      o_created_at = now, o_updated_at = now, o_updated_by = None\<rparr>;
             s' = s\<lparr>products := P, orders := orders s @ [order],
                    order_items := order_items s @
                       new_order_items (o_id order) (fresh_id (map i_id (order_items s))) (items req),
                    activity_logs := activity_logs s @
                       [new_log s now ''order_created'' user
                          [(''order_id'', JId (o_id order)),
                           (''total_amount'', JNum (total req)),
                           (''item_count'', JNum (of_int (fold (\<lambda>i sum. sum + (if quantity i = 0 then 0 else quantity i)) (items req) 0)))]],
                    cart_items := filter (\<lambda>c. c_user_id c \<noteq> au_id user) (cart_items s)\<rparr>
         in (Json 201 (order_response s' order), s'))"
    by (simp add: post_orders_def with_user_def assms(1) P Let_def no_faults_def
        unchecked_write_def insert_log_def new_log_def)
  with Q show ?thesis by blast
qed

lemma new_order_items_lines:
  "map (\<lambda>i. (i_order_id i, i_product_id i, i_name i, i_price i, i_quantity i))
       (new_order_items order k ls)
   = map (\<lambda>l. (order, productId l, name l, price l, quantity l)) ls"
  by (induction ls arbitrary: k) (simp_all add: new_order_items_def)

text \<open>
  C1, as stated, fails when two lines name the same product. The shop holds 5 of product
  10 and the request asks for 3 and 3 again: each quantity is at most the current stock,
  yet the second line is refused, no order is created and the stock is left at 2.
\<close>

theorem post_orders_same_product_twice:
  "stock_of (products shop) 10 = Some 5
   \<and> map productId (items (basket [tea_line 3, tea_line 3] 12)) = [10, 10]
   \<and> map quantity (items (basket [tea_line 3, tea_line 3] 12)) = [3, 3]
   \<and> fst (post_orders no_faults 0 (Some ''Bearer TA'') (basket [tea_line 3, tea_line 3] 12) shop)
       = Json 400 (ErrorBody ''Insufficient stock for Tea'')
   \<and> orders (snd (post_orders no_faults 0 (Some ''Bearer TA'') (basket [tea_line 3, tea_line 3] 12) shop)) = []
   \<and> stock_of (products (snd (post_orders no_faults 0 (Some ''Bearer TA'') (basket [tea_line 3, tea_line 3] 12) shop))) 10 = Some 2"
  by (simp add: post_orders_def with_user_def verify_ann basket_def tea_line_def shop_tables catalogue
      no_faults_def set_stock_def stock_of_def)

text \<open>
  C1 (amended). On a store that applies every write, for every request of a signed-in
  user in which each line names a product in the table and asks for at most the stock
  of that product less what the earlier lines of the request naming it ask for (for
  lines naming different products: at most the current stock), \<^verbatim>\<open>POST /orders\<close>
  answers 201, lowers the stock of every product by the quantities of the lines naming
  it, and adds exactly one order, with a new identifier and status \<^verbatim>\<open>pending\<close>, whose
  added order-line rows repeat the lines of the request, in order, in product, name,
  price and quantity.
\<close>

theorem post_orders_in_stock:
  assumes "verifyUser s authHeader = Some user"
    and "in_stock (products s) [] (items req)"
  shows "case post_orders no_faults now authHeader req s of (resp, s') \<Rightarrow>
      status_code resp = 201
    \<and> (\<forall>p. stock_of (products s') p
             = map_option (\<lambda>n. n - ordered (items req) p) (stock_of (products s) p))
    \<and> (\<exists>order rows.
          orders s' = orders s @ [order] \<and> o_id order \<notin> o_id ` set (orders s)
        \<and> o_status order = ''pending'' \<and> o_user_id order = au_id user
        \<and> order_items s' = order_items s @ rows
        \<and> map (\<lambda>i. (i_order_id i, i_product_id i, i_name i, i_price i, i_quantity i)) rows
            = map (\<lambda>l. (o_id order, productId l, name l, price l, quantity l)) (items req))"
proof -
  from post_orders_success[OF assms, of now] obtain P where
    P: "\<forall>p. stock_of P p = map_option (\<lambda>n. n - ordered (items req) p) (stock_of (products s) p)"
    and R: "post_orders no_faults now authHeader req s =
        (let order = \<lparr>o_id = fresh_id (map o_id (orders s)), o_user_id = au_id user,
                      o_user_email = au_email user, o_total = total req,
                      o_status = ''pending'', o_shipping_address = shippingAddress req,
                      o_created_at = now, o_updated_at = now, o_updated_by = None\<rparr>;
             s' = s\<lparr>products := P, orders := orders s @ [order],
                    order_items := order_items s @
                       new_order_items (o_id order) (fresh_id (map i_id (order_items s))) (items req),
                    activity_logs := activity_logs s @
                       [new_log s now ''order_created'' user
                          [(''order_id'', JId (o_id order)),
                           (''total_amount'', JNum (total req)),
                           (''item_count'', JNum (of_int (fold (\<lambda>i sum. sum + (if quantity i = 0 then 0 else quantity i)) (items req) 0)))]],
                    cart_items := filter (\<lambda>c. c_user_id c \<noteq> au_id user) (cart_items s)\<rparr>
         in (Json 201 (order_response s' order), s'))"
    by blast
  have fresh: "fresh_id (map o_id (orders s)) \<notin> o_id ` set (orders s)"
    using fresh_id_new[of "map o_id (orders s)"] by simp
  show ?thesis
    unfolding R Let_def
    using P fresh by (simp add: order_response_def new_order_items_lines)
qed

lemma in_stock_example: "in_stock (products shop) [] [tea_line 2, mug_line 1, tea_line 3]"
  by (simp add: shop_tables stock_of_def catalogue tea_line_def mug_line_def ordered_def)

text \<open>Two lines for tea (2, then 3 of the 5 in stock) and one mug.\<close>

theorem post_orders_in_stock_witness:
  "verifyUser shop (Some ''Bearer TA'') = Some ann
   \<and> in_stock (products shop) [] (items (basket [tea_line 2, mug_line 1, tea_line 3] 17))
   \<and> status_code (fst (post_orders no_faults 0 (Some ''Bearer TA'')
                         (basket [tea_line 2, mug_line 1, tea_line 3] 17) shop)) = 201
   \<and> stock_of (products (snd (post_orders no_faults 0 (Some ''Bearer TA'')
                         (basket [tea_line 2, mug_line 1, tea_line 3] 17) shop))) 10 = Some 0
   \<and> stock_of (products (snd (post_orders no_faults 0 (Some ''Bearer TA'')
                         (basket [tea_line 2, mug_line 1, tea_line 3] 17) shop))) 11 = Some 4"
proof -
  have b: "items (basket [tea_line 2, mug_line 1, tea_line 3] 17) = [tea_line 2, mug_line 1, tea_line 3]"
    by (simp add: basket_def)
  have i: "in_stock (products shop) [] (items (basket [tea_line 2, mug_line 1, tea_line 3] 17))"
    unfolding b by (rule in_stock_example)
  have o: "ordered [tea_line 2, mug_line 1, tea_line 3] 10 = 5"
     "ordered [tea_line 2, mug_line 1, tea_line 3] 11 = 1"
    by (simp_all add: ordered_def tea_line_def mug_line_def)
  have s: "stock_of (products shop) 10 = Some 5" "stock_of (products shop) 11 = Some 5"
    by (simp_all add: stock_of_def shop_tables catalogue)
  show ?thesis
    using post_orders_in_stock[OF verify_ann i, of 0] verify_ann i
    by (auto simp: b o s split: prod.splits)
qed

subsection \<open>An order that asks for too much\<close>

lemma check_lines_frame:
  "check_lines st now ls s = (r, s') \<Longrightarrow> \<exists>P. s' = s\<lparr>products := P\<rparr>"
proof (induction ls arbitrary: s)
  case Nil
  then have "s' = s\<lparr>products := products s\<rparr>" by simp
  then show ?case ..
next
  case (Cons l ls)
  show ?case
  proof (cases "single (filter (\<lambda>p. p_id p = productId l) (products s))")
    case None
    with Cons.prems have "s' = s\<lparr>products := products s\<rparr>" by simp
    then show ?thesis ..
  next
    case (Some product)
    show ?thesis
    proof (cases "p_stock product < quantity l
                  \<or> st s (UpdateStock (productId l) (p_stock product - quantity l) now) \<noteq> None")
      case True
      with Some Cons.prems have "s' = s\<lparr>products := products s\<rparr>"
        by (auto split: if_splits)
      then show ?thesis ..
    next
      case False
      with Some Cons.prems have "check_lines st now ls
         (s\<lparr>products := set_stock (productId l) (p_stock product - quantity l) now (products s)\<rparr>)
         = (r, s')" by auto
      from Cons.IH[OF this] obtain P where
         "s' = s\<lparr>products := set_stock (productId l) (p_stock product - quantity l) now (products s)\<rparr>
                \<lparr>products := P\<rparr>" ..
      then have "s' = s\<lparr>products := P\<rparr>" by simp
      then show ?thesis ..
    qed
  qed
qed

lemma check_lines_prefix:
  "check_lines st now ls s = (r, s') \<Longrightarrow>
     \<exists>pre post. ls = pre @ post \<and> (r = None \<longleftrightarrow> post = [])
       \<and> (\<forall>p. stock_of (products s') p
                = map_option (\<lambda>n. n - ordered pre p) (stock_of (products s) p))
       \<and> (\<forall>resp. r = Some resp \<longrightarrow> status_code resp = 400 \<or> status_code resp = 404)"
proof (induction ls arbitrary: s)
  case Nil
  then show ?case by (simp add: ordered_def option.map_ident)
next
  case (Cons l ls)
  have stop: ?case if "check_lines st now (l # ls) s = (Some a, s)"
      and "status_code a = 400 \<or> status_code a = 404" for a
  proof -
    from that Cons.prems have "r = Some a" "s' = s" by simp_all
    with that(2) have "l # ls = [] @ (l # ls) \<and> (r = None \<longleftrightarrow> l # ls = [])
       \<and> (\<forall>p. stock_of (products s') p = map_option (\<lambda>n. n - ordered [] p) (stock_of (products s) p))
       \<and> (\<forall>resp. r = Some resp \<longrightarrow> status_code resp = 400 \<or> status_code resp = 404)"
      by (simp add: ordered_def option.map_ident)
    then show ?thesis by blast
  qed
  show ?case
  proof (cases "single (filter (\<lambda>p. p_id p = productId l) (products s))")
    case None
    then have "check_lines st now (l # ls) s
               = (Some (Json 404 (ErrorBody (''Product '' @ name l @ '' not found''))), s)"
      by simp
    then show ?thesis by (rule stop) simp
  next
    case (Some product)
    show ?thesis
    proof (cases "p_stock product < quantity l")
      case True
      with Some have "check_lines st now (l # ls) s
               = (Some (Json 400 (ErrorBody (''Insufficient stock for '' @ name l))), s)"
        by simp
      then show ?thesis by (rule stop) simp
    next
      case False
      show ?thesis
      proof (cases "st s (UpdateStock (productId l) (p_stock product - quantity l) now)")
        case (Some err)
        with \<open>single _ = Some product\<close> False have "check_lines st now (l # ls) s
               = (Some (Json 400 (ErrorBody ''Failed to update stock'')), s)"
          by simp
        then show ?thesis by (rule stop) simp
      next
        case None
        let ?s = "s\<lparr>products := set_stock (productId l) (p_stock product - quantity l) now (products s)\<rparr>"
        from None \<open>single _ = Some product\<close> False Cons.prems
        have "check_lines st now ls ?s = (r, s')" by simp
        from Cons.IH[OF this] obtain pre post where
          ls: "ls = pre @ post" and r: "r = None \<longleftrightarrow> post = []"
          and stk: "\<forall>p. stock_of (products s') p
                = map_option (\<lambda>n. n - ordered pre p) (stock_of (products ?s) p)"
          and code: "\<forall>resp. r = Some resp \<longrightarrow> status_code resp = 400 \<or> status_code resp = 404"
          by blast
        have here: "stock_of (products s) (productId l) = Some (p_stock product)"
          using \<open>single _ = Some product\<close> by (simp add: stock_of_def)
        have "stock_of (products s') p
                = map_option (\<lambda>n. n - ordered (l # pre) p) (stock_of (products s) p)" for p
          using stk here
          by (cases "stock_of (products s) p") (auto simp: stock_of_set_stock ordered_Cons)
        with ls r code have "l # ls = (l # pre) @ post \<and> (r = None \<longleftrightarrow> post = [])
          \<and> (\<forall>p. stock_of (products s') p
                = map_option (\<lambda>n. n - ordered (l # pre) p) (stock_of (products s) p))
          \<and> (\<forall>resp. r = Some resp \<longrightarrow> status_code resp = 400 \<or> status_code resp = 404)"
          by simp
        then show ?thesis by blast
      qed
    qed
  qed
qed

lemma check_lines_rejects:
  assumes "\<forall>l\<in>set ls. 0 \<le> quantity l"
    and "\<exists>l\<in>set ls. \<exists>n. stock_of (products s) (productId l) = Some n \<and> n < quantity l"
  shows "fst (check_lines st now ls s) \<noteq> None"
  using assms
proof (induction ls arbitrary: s)
  case Nil
  then show ?case by simp
next
  case (Cons l ls)
  show ?case
  proof (cases "single (filter (\<lambda>p. p_id p = productId l) (products s))")
    case None
    then show ?thesis by simp
  next
    case (Some product)
    then have here: "stock_of (products s) (productId l) = Some (p_stock product)"
      by (simp add: stock_of_def)
    show ?thesis
    proof (cases "p_stock product < quantity l \<or> st s (UpdateStock (productId l) (p_stock product - quantity l) now) \<noteq> None")
      case True
      with Some show ?thesis by auto
    next
      case False
      let ?s = "s\<lparr>products := set_stock (productId l) (p_stock product - quantity l) now (products s)\<rparr>"
      from False Some have step: "check_lines st now (l # ls) s = check_lines st now ls ?s"
        by auto
      from Cons.prems(2) obtain k n where k: "k \<in> set (l # ls)"
        and n: "stock_of (products s) (productId k) = Some n" "n < quantity k"
        by blast
      from False here n have "k \<noteq> l" by auto
      with k have "k \<in> set ls" by simp
      moreover have "\<exists>m. stock_of (products ?s) (productId k) = Some m \<and> m < quantity k"
        using n here Cons.prems(1) by (auto simp: stock_of_set_stock)
      ultimately have "\<exists>l\<in>set ls. \<exists>n. stock_of (products ?s) (productId l) = Some n \<and> n < quantity l"
        by blast
      with Cons.IH[of ?s] Cons.prems(1) step show ?thesis by simp
    qed
  qed
qed

text \<open>
  C2 (amended). Whatever the store answers to the writes: for every request of a
  signed-in user whose quantities are not negative and which has a line asking for more
  than the current stock of its product, \<^verbatim>\<open>POST /orders\<close> answers with an error (400
  or 404) and creates no order row and no order-line row; only the table of products can
  differ afterwards. The lines handled before the one that stopped the request keep their
  effect: the stock of every product is lowered by the quantities of those lines, a
  proper prefix of the request, and by nothing else. So the stock of a product that none
  of them names is unchanged.
\<close>

theorem post_orders_insufficient:
  assumes "verifyUser s authHeader = Some user"
    and "\<forall>l\<in>set (items req). 0 \<le> quantity l"
    and "\<exists>l\<in>set (items req). \<exists>n. stock_of (products s) (productId l) = Some n \<and> n < quantity l"
  shows "case post_orders st now authHeader req s of (resp, s') \<Rightarrow>
      (status_code resp = 400 \<or> status_code resp = 404)
    \<and> orders s' = orders s \<and> order_items s' = order_items s
    \<and> s' = s\<lparr>products := products s'\<rparr>
    \<and> (\<exists>pre post. items req = pre @ post \<and> post \<noteq> []
          \<and> (\<forall>p. stock_of (products s') p
                   = map_option (\<lambda>n. n - ordered pre p) (stock_of (products s) p)))"
proof -
  obtain r s1 where c: "check_lines st now (items req) s = (r, s1)"
    by (cases "check_lines st now (items req) s")
  from check_lines_rejects[OF assms(2,3), of st now] c obtain early where r: "r = Some early"
    by auto
  from check_lines_frame[OF c] obtain P where "s1 = s\<lparr>products := P\<rparr>" ..
  then have frame: "s1 = s\<lparr>products := products s1\<rparr>" "orders s1 = orders s"
    "order_items s1 = order_items s"
    by simp_all
  from check_lines_prefix[OF c] r obtain pre post where
    "items req = pre @ post" "post \<noteq> []"
    "\<forall>p. stock_of (products s1) p = map_option (\<lambda>n. n - ordered pre p) (stock_of (products s) p)"
    "status_code early = 400 \<or> status_code early = 404"
    by auto
  moreover have "post_orders st now authHeader req s = (early, s1)"
    by (simp add: post_orders_def with_user_def assms(1) c r)
  ultimately show ?thesis using frame by auto
qed

lemma short_basket:
  "fst (post_orders no_faults 0 (Some ''Bearer TA'') (basket [tea_line 1, mug_line 100] 702) shop)
     = Json 400 (ErrorBody ''Insufficient stock for Mug'')"
  "stock_of (products (snd (post_orders no_faults 0 (Some ''Bearer TA'')
                              (basket [tea_line 1, mug_line 100] 702) shop))) 10 = Some 4"
  by (simp_all add: post_orders_def with_user_def verify_ann basket_def tea_line_def mug_line_def
      shop_tables catalogue no_faults_def set_stock_def stock_of_def)

text \<open>One tea, then 100 mugs of the 5 in stock.\<close>

theorem post_orders_insufficient_witness:
  "verifyUser shop (Some ''Bearer TA'') = Some ann
   \<and> map quantity (items (basket [tea_line 1, mug_line 100] 702)) = [1, 100]
   \<and> map productId (items (basket [tea_line 1, mug_line 100] 702)) = [10, 11]
   \<and> stock_of (products shop) 11 = Some 5
   \<and> (case post_orders no_faults 0 (Some ''Bearer TA'') (basket [tea_line 1, mug_line 100] 702) shop
       of (resp, s') \<Rightarrow>
         (status_code resp = 400 \<or> status_code resp = 404)
       \<and> orders s' = orders shop \<and> order_items s' = order_items shop
       \<and> s' = shop\<lparr>products := products s'\<rparr>
       \<and> (\<exists>pre post. items (basket [tea_line 1, mug_line 100] 702) = pre @ post \<and> post \<noteq> []
             \<and> (\<forall>p. stock_of (products s') p
                      = map_option (\<lambda>n. n - ordered pre p) (stock_of (products shop) p))))"
proof -
  have a: "\<forall>l\<in>set (items (basket [tea_line 1, mug_line 100] 702)). 0 \<le> quantity l"
    by (simp add: basket_def tea_line_def mug_line_def)
  have b: "\<exists>l\<in>set (items (basket [tea_line 1, mug_line 100] 702)).
        \<exists>n. stock_of (products shop) (productId l) = Some n \<and> n < quantity l"
    by (simp add: basket_def tea_line_def mug_line_def stock_shop)
  have c: "map quantity (items (basket [tea_line 1, mug_line 100] 702)) = [1, 100]"
    "map productId (items (basket [tea_line 1, mug_line 100] 702)) = [10, 11]"
    by (simp_all add: basket_def tea_line_def mug_line_def)
  from post_orders_insufficient[OF verify_ann a b, of no_faults 0] verify_ann c stock_shop(2)
  show ?thesis by blast
qed

text \<open>
  C2, as stated, fails: the request for one tea and 100 mugs is refused for the mugs, and
  the stock of tea, whose line came first, stays lowered from 5 to 4.
\<close>

theorem post_orders_no_rollback:
  "stock_of (products shop) 10 = Some 5 \<and> stock_of (products shop) 11 = Some 5
   \<and> map productId (items (basket [tea_line 1, mug_line 100] 702)) = [10, 11]
   \<and> map quantity (items (basket [tea_line 1, mug_line 100] 702)) = [1, 100]
   \<and> fst (post_orders no_faults 0 (Some ''Bearer TA'') (basket [tea_line 1, mug_line 100] 702) shop)
       = Json 400 (ErrorBody ''Insufficient stock for Mug'')
   \<and> stock_of (products (snd (post_orders no_faults 0 (Some ''Bearer TA'')
                                 (basket [tea_line 1, mug_line 100] 702) shop))) 10 = Some 4"
  by (simp add: stock_shop short_basket) (simp add: basket_def tea_line_def mug_line_def)

subsection \<open>The total of an order\<close>

lemma big_total:
  "case post_orders no_faults 0 (Some ''Bearer TA'') (basket [tea_line 1] 1000) shop of
     (resp, s') \<Rightarrow>
       status_code resp = 201
     \<and> (\<exists>order. orders s' = orders shop @ [order]
          \<and> o_total order \<noteq> lines_total (filter (\<lambda>i. i_order_id i = o_id order) (order_items s'))
          \<and> totalRevenue (orders s') = totalRevenue (orders shop) + o_total order)"
  by (simp add: post_orders_def with_user_def verify_ann basket_def tea_line_def shop_tables
      catalogue no_faults_def set_stock_def Let_def unchecked_write_def insert_log_def new_log_def
      new_order_items_def lines_total_def totalRevenue_def fresh_id_def)

text \<open>
  C8. \<^verbatim>\<open>POST /orders\<close> stores the total of the request as it comes: whenever an order is
  placed (signed-in user, every line in stock, a store that applies the writes), the
  total of the new order row is the total of the request, whatever the lines are, and
  the revenue of the analytics grows by that total. For some request the stored total
  differs from the sum of price times quantity over the stored lines of the order.
\<close>

theorem post_orders_total_verbatim:
  "(\<forall>s authHeader user req now.
      verifyUser s authHeader = Some user \<longrightarrow> in_stock (products s) [] (items req) \<longrightarrow>
      (case post_orders no_faults now authHeader req s of (resp, s') \<Rightarrow>
         \<exists>order. orders s' = orders s @ [order] \<and> o_total order = total req
           \<and> totalRevenue (orders s') = totalRevenue (orders s) + total req))
   \<and> (\<exists>s authHeader req now.
        case post_orders no_faults now authHeader req s of (resp, s') \<Rightarrow>
          status_code resp = 201
        \<and> (\<exists>order. orders s' = orders s @ [order]
             \<and> o_total order
                 \<noteq> lines_total (filter (\<lambda>i. i_order_id i = o_id order) (order_items s'))
             \<and> totalRevenue (orders s') = totalRevenue (orders s) + o_total order))"
proof (intro conjI allI impI)
  fix s authHeader user and req :: order_request and now
  assume a: "verifyUser s authHeader = Some user" and b: "in_stock (products s) [] (items req)"
  from post_orders_success[OF a b, of now]
  show "case post_orders no_faults now authHeader req s of (resp, s') \<Rightarrow>
         \<exists>order. orders s' = orders s @ [order] \<and> o_total order = total req
           \<and> totalRevenue (orders s') = totalRevenue (orders s) + total req"
    by (auto simp: Let_def totalRevenue_snoc)
next
  from big_total show "\<exists>s authHeader req now.
        case post_orders no_faults now authHeader req s of (resp, s') \<Rightarrow>
          status_code resp = 201
        \<and> (\<exists>order. orders s' = orders s @ [order]
             \<and> o_total order
                 \<noteq> lines_total (filter (\<lambda>i. i_order_id i = o_id order) (order_items s'))
             \<and> totalRevenue (orders s') = totalRevenue (orders s) + o_total order)"
    by (intro exI[of _ shop] exI[of _ "Some ''Bearer TA''"] exI[of _ "basket [tea_line 1] 1000"]
          exI[of _ 0])
qed

text \<open>One tea at 2, sent with a total of 1000.\<close>

theorem post_orders_total_verbatim_witness:
  "verifyUser shop (Some ''Bearer TA'') = Some ann
   \<and> in_stock (products shop) [] (items (basket [tea_line 1] 1000))
   \<and> (case post_orders no_faults 0 (Some ''Bearer TA'') (basket [tea_line 1] 1000) shop of
        (resp, s') \<Rightarrow>
          \<exists>order. orders s' = [order] \<and> o_total order = 1000 \<and> totalRevenue (orders s') = 1000)"
proof -
  have i: "in_stock (products shop) [] (items (basket [tea_line 1] 1000))"
    by (simp add: basket_def stock_shop tea_line_def ordered_def)
  have t: "total (basket [tea_line 1] 1000) = 1000" "orders shop = []" "totalRevenue [] = 0"
    by (simp_all add: basket_def shop_tables totalRevenue_def)
  from post_orders_total_verbatim[THEN conjunct1, rule_format, OF verify_ann i, of 0]
  have "case post_orders no_faults 0 (Some ''Bearer TA'') (basket [tea_line 1] 1000) shop of
        (resp, s') \<Rightarrow>
         \<exists>order. orders s' = orders shop @ [order] \<and> o_total order = total (basket [tea_line 1] 1000)
           \<and> totalRevenue (orders s')
               = totalRevenue (orders shop) + total (basket [tea_line 1] 1000)" .
  with verify_ann i show ?thesis by (simp add: t)
qed

subsection \<open>Cancelling an order\<close>

lemma restock_frame: "\<exists>P. restock st now ls s = s\<lparr>products := P\<rparr>"
proof (induction ls arbitrary: s)
  case Nil
  have "restock st now [] s = s\<lparr>products := products s\<rparr>" by simp
  then show ?case ..
next
  case (Cons item ls)
  show ?case
  proof (cases "single (filter (\<lambda>p. p_id p = i_product_id item) (products s))")
    case None
    with Cons.IH[of s] show ?thesis by simp
  next
    case (Some product)
    let ?s = "unchecked_write st s
                (UpdateStock (i_product_id item) (p_stock product + i_quantity item) now)
                (s\<lparr>products := set_stock (i_product_id item)
                                  (p_stock product + i_quantity item) now (products s)\<rparr>)"
    from Cons.IH[of ?s] obtain P where P: "restock st now ls ?s = ?s\<lparr>products := P\<rparr>" ..
    have "?s\<lparr>products := P\<rparr> = s\<lparr>products := P\<rparr>"
      by (simp add: unchecked_write_def split: option.splits)
    with P Some have "restock st now (item # ls) s = s\<lparr>products := P\<rparr>" by simp
    then show ?thesis ..
  qed
qed

lemma returned_Cons:
  "returned (item # rows) p = (if i_product_id item = p then i_quantity item else 0) + returned rows p"
  by (simp add: returned_def)

lemma restock_stock:
  "stock_of (products (restock no_faults now ls s)) p
     = map_option (\<lambda>n. n + returned ls p) (stock_of (products s) p)"
proof (induction ls arbitrary: s)
  case Nil
  then show ?case by (simp add: returned_def option.map_ident)
next
  case (Cons item ls)
  show ?case
  proof (cases "single (filter (\<lambda>p. p_id p = i_product_id item) (products s))")
    case None
    then have "stock_of (products s) (i_product_id item) = None"
      by (simp add: stock_of_def)
    with None Cons.IH[of s] show ?thesis
      by (cases "i_product_id item = p") (simp_all add: returned_Cons)
  next
    case (Some product)
    then have here: "stock_of (products s) (i_product_id item) = Some (p_stock product)"
      by (simp add: stock_of_def)
    let ?s = "s\<lparr>products := set_stock (i_product_id item)
                                  (p_stock product + i_quantity item) now (products s)\<rparr>"
    have "restock no_faults now (item # ls) s = restock no_faults now ls ?s"
      using Some by (simp add: unchecked_write_def no_faults_def)
    with Cons.IH[of ?s] here show ?thesis
      by (cases "stock_of (products s) p") (auto simp: stock_of_set_stock returned_Cons)
  qed
qed

lemma status_change_keeps_stock:
  assumes "status \<noteq> ''cancelled''
           \<or> (\<exists>order. single (filter (\<lambda>r. o_id r = order_id) (orders s)) = Some order
                  \<and> o_status order = ''cancelled'')"
  shows "products (snd (put_order_status st now authHeader order_id status s)) = products s"
proof (cases "verifyUser s authHeader")
  case None
  then show ?thesis by (simp add: put_order_status_def with_admin_def with_user_def)
next
  case (Some user)
  show ?thesis
  proof (cases "getOrCreateUserRecord st now s (au_id user) (au_email user)")
    case (Inl err)
    with Some show ?thesis by (simp add: put_order_status_def with_admin_def with_user_def)
  next
    case (Inr pair)
    obtain row s1 where pair: "pair = (row, s1)" by (cases pair)
    from getOrCreate_tables[OF Inr[unfolded pair]]
    have t: "products s1 = products s" "orders s1 = orders s" by simp_all
    show ?thesis
      using assms Some Inr pair t
      by (auto simp: put_order_status_def with_admin_def with_user_def Let_def insert_log_def
            unchecked_write_def split: option.splits)
  qed
qed

lemma cancel_success:
  assumes "verifyUser s authHeader = Some user" and "stored_role s (au_id user) = Some ''admin''"
    and "single (filter (\<lambda>r. o_id r = order_id) (orders s)) = Some order"
    and "o_status order \<noteq> ''cancelled''"
  shows "\<exists>P L. (\<forall>p. stock_of P p
                  = map_option (\<lambda>n. n + returned (filter (\<lambda>i. i_order_id i = order_id) (order_items s)) p)
                      (stock_of (products s) p))
     \<and> put_order_status no_faults now authHeader order_id ''cancelled'' s =
        (let s' = s\<lparr>products := P,
                    orders := map (\<lambda>r. if o_id r = order_id
                                        then r\<lparr>o_status := ''cancelled'', o_updated_at := now,
                                               o_updated_by := Some (au_id user)\<rparr>
                                        else r) (orders s),
                    activity_logs := activity_logs s @ [L]\<rparr>
         in (Json 200 (order_response s' (order\<lparr>o_status := ''cancelled'', o_updated_at := now,
                                               o_updated_by := Some (au_id user)\<rparr>)), s'))"
proof -
  let ?ls = "filter (\<lambda>i. i_order_id i = order_id) (order_items s)"
  from restock_frame[of no_faults now ?ls s] obtain P where
    P: "restock no_faults now ?ls s = s\<lparr>products := P\<rparr>" ..
  from restock_stock[of now ?ls s] P
  have Q: "\<forall>p. stock_of P p = map_option (\<lambda>n. n + returned ?ls p) (stock_of (products s) p)"
    by simp
  have "put_order_status no_faults now authHeader order_id ''cancelled'' s =
        (let s' = s\<lparr>products := P,
                    orders := map (\<lambda>r. if o_id r = order_id
                                        then r\<lparr>o_status := ''cancelled'', o_updated_at := now,
                                               o_updated_by := Some (au_id user)\<rparr>
                                        else r) (orders s),
                    activity_logs := activity_logs s @
                       [new_log s now ''order_status_updated'' user
                          [(''order_id'', JId order_id),
                           (''previous_status'', JStr (o_status order)),
                           (''newStatus'', JStr ''cancelled'')]]\<rparr>
         in (Json 200 (order_response s' (order\<lparr>o_status := ''cancelled'', o_updated_at := now,
                                               o_updated_by := Some (au_id user)\<rparr>)), s'))"
    unfolding put_order_status_def admin_passes[OF assms(1,2)]
    using assms(3,4) P
    by (simp add: Let_def no_faults_def insert_log_def unchecked_write_def new_log_def)
  with Q show ?thesis by blast
qed

text \<open>
  C3. When an administrator sets an existing order whose status is not \<^verbatim>\<open>cancelled\<close> to
  \<^verbatim>\<open>cancelled\<close> (on a store that applies the writes), the stock of every product grows
  by exactly the quantities of the lines of that order naming it; the order is then
  stored as cancelled, and no later status request for it, whatever it asks for and
  whatever the store answers, changes the table of products again. A request whose new
  status is not \<^verbatim>\<open>cancelled\<close>, or whose order is already cancelled, leaves the table of
  products as it is.
\<close>

theorem order_status_restock:
  "(verifyUser s authHeader = Some user \<longrightarrow> stored_role s (au_id user) = Some ''admin'' \<longrightarrow>
    single (filter (\<lambda>r. o_id r = order_id) (orders s)) = Some order \<longrightarrow>
    o_status order \<noteq> ''cancelled'' \<longrightarrow>
      (case put_order_status no_faults now authHeader order_id ''cancelled'' s of (resp, s') \<Rightarrow>
         status_code resp = 200
       \<and> (\<forall>p. stock_of (products s') p
               = map_option
                   (\<lambda>n. n + returned (filter (\<lambda>i. i_order_id i = order_id) (order_items s)) p)
                   (stock_of (products s) p))
       \<and> (\<exists>order'. single (filter (\<lambda>r. o_id r = order_id) (orders s')) = Some order'
             \<and> o_status order' = ''cancelled'')
       \<and> (\<forall>st' now' authHeader' status'.
             products (snd (put_order_status st' now' authHeader' order_id status' s'))
               = products s')))
   \<and> (status \<noteq> ''cancelled''
        \<or> (\<exists>order. single (filter (\<lambda>r. o_id r = order_id) (orders s)) = Some order
               \<and> o_status order = ''cancelled'') \<longrightarrow>
      products (snd (put_order_status st now authHeader order_id status s)) = products s)"
proof (intro conjI impI)
  assume a: "verifyUser s authHeader = Some user" "stored_role s (au_id user) = Some ''admin''"
    "single (filter (\<lambda>r. o_id r = order_id) (orders s)) = Some order"
    "o_status order \<noteq> ''cancelled''"
  let ?ls = "filter (\<lambda>i. i_order_id i = order_id) (order_items s)"
  let ?upd = "\<lambda>r. r\<lparr>o_status := ''cancelled'', o_updated_at := now,
                      o_updated_by := Some (au_id user)\<rparr>"
  from cancel_success[OF a, of now] obtain P L where
    Q: "\<forall>p. stock_of P p = map_option (\<lambda>n. n + returned ?ls p) (stock_of (products s) p)"
    and R: "put_order_status no_faults now authHeader order_id ''cancelled'' s =
        (Json 200 (order_response
                     (s\<lparr>products := P,
                        orders := map (\<lambda>r. if o_id r = order_id then ?upd r else r) (orders s),
                        activity_logs := activity_logs s @ [L]\<rparr>) (?upd order)),
         s\<lparr>products := P,
           orders := map (\<lambda>r. if o_id r = order_id then ?upd r else r) (orders s),
           activity_logs := activity_logs s @ [L]\<rparr>)"
    by (auto simp: Let_def)
  let ?s' = "s\<lparr>products := P,
              orders := map (\<lambda>r. if o_id r = order_id then ?upd r else r) (orders s),
              activity_logs := activity_logs s @ [L]\<rparr>"
  have found: "single (filter (\<lambda>r. o_id r = order_id) (orders ?s')) = Some (?upd order)"
    using a(3) single_filter_holds[OF a(3)] by (simp add: filter_map_update single_map)
  have once: "products (snd (put_order_status st' now' authHeader' order_id status' ?s')) = products ?s'"
    for st' now' authHeader' status'
    by (rule status_change_keeps_stock) (use found in simp)
  show "case put_order_status no_faults now authHeader order_id ''cancelled'' s of (resp, s') \<Rightarrow>
         status_code resp = 200
       \<and> (\<forall>p. stock_of (products s') p = map_option (\<lambda>n. n + returned ?ls p) (stock_of (products s) p))
       \<and> (\<exists>order'. single (filter (\<lambda>r. o_id r = order_id) (orders s')) = Some order'
             \<and> o_status order' = ''cancelled'')
       \<and> (\<forall>st' now' authHeader' status'.
             products (snd (put_order_status st' now' authHeader' order_id status' s'))
               = products s')"
    unfolding R prod.case
    using Q found once by (intro conjI allI) (simp_all add: order_response_def)
next
  assume "status \<noteq> ''cancelled''
        \<or> (\<exists>order. single (filter (\<lambda>r. o_id r = order_id) (orders s)) = Some order
               \<and> o_status order = ''cancelled'')"
  then show "products (snd (put_order_status st now authHeader order_id status s)) = products s"
    by (rule status_change_keeps_stock)
qed

text \<open>
  The order of two teas is cancelled by the administrator: the stock goes from 3 back to
  5; shipping it instead leaves the products alone.
\<close>

theorem order_status_restock_witness:
  "verifyUser sold (Some ''Bearer TR'') = Some boss
   \<and> stored_role sold (au_id boss) = Some ''admin''
   \<and> single (filter (\<lambda>r. o_id r = 100) (orders sold)) = Some tea_order
   \<and> o_status tea_order \<noteq> ''cancelled''
   \<and> stock_of (products sold) 10 = Some 3
   \<and> stock_of (products (snd (put_order_status no_faults 9 (Some ''Bearer TR'') 100 ''cancelled'' sold))) 10
       = Some 5
   \<and> ''shipped'' \<noteq> ''cancelled''
   \<and> products (snd (put_order_status no_faults 9 (Some ''Bearer TR'') 100 ''shipped'' sold))
       = products sold"
proof -
  have o: "single (filter (\<lambda>r. o_id r = 100) (orders sold)) = Some tea_order"
    "o_status tea_order \<noteq> ''cancelled''"
    by (simp_all add: sold_tables tea_order_def)
  have s: "stock_of (products sold) 10 = Some 3"
    by (simp add: stock_of_def sold_tables catalogue)
  have r: "returned (filter (\<lambda>i. i_order_id i = 100) (order_items sold)) 10 = 2"
    by (simp add: returned_def sold_tables)
  from order_status_restock[where s = sold and authHeader = "Some ''Bearer TR''" and user = boss
      and order_id = 100 and order = tea_order and now = 9 and status = "''shipped''"
      and st = no_faults]
    verify_boss boss_is_admin o s r
  show ?thesis by (auto split: prod.splits)
qed

subsection \<open>Tokens and roles\<close>

text \<open>
  C4, as stated, fails twice. \<^verbatim>\<open>POST /create-admin\<close> is neither the sign-up nor a read
  of the catalogue, and it never looks at the token: without one it answers 201 and
  stores a new administrator. And an administrator route answers 403 to a signed-in user
  who has no row in \<^verbatim>\<open>users\<close> only after it has stored one for them.
\<close>

theorem create_admin_needs_no_token:
  "verifyUser shop None = None
   \<and> handle no_faults quiet 7 None (PostCreateAdmin eve) shop
       = (Json 201 (CreatedUserBody eve_row),
          shop\<lparr>accounts := accounts shop @ [\<lparr>au_id = 3, au_email = Some ''eve@example.com''\<rparr>],
               users := users shop @ [eve_row]\<rparr>)
   \<and> u_role eve_row = ''admin''
   \<and> verifyUser open_day (Some ''Bearer TV'') = Some visitor
   \<and> stored_role open_day (au_id visitor) = None
   \<and> handle no_faults quiet 7 (Some ''Bearer TV'') GetAdminLogs open_day
       = (Json 403 (ErrorBody ''Admin access required''),
          open_day\<lparr>users := users open_day @ [visitor_row]\<rparr>)"
proof -
  have "handle no_faults quiet 7 None (PostCreateAdmin eve) shop
       = (Json 201 (CreatedUserBody eve_row),
          shop\<lparr>accounts := accounts shop @ [\<lparr>au_id = 3, au_email = Some ''eve@example.com''\<rparr>],
               users := users shop @ [eve_row]\<rparr>)"
    by (simp add: post_create_admin_def no_faults_def eve_def eve_row_def Let_def
      fresh_id_def shop_def ann_def boss_def)
  moreover have v: "verifyUser open_day (Some ''Bearer TV'') = Some visitor"
    by (simp add: verifyUser_def open_day_tables)
  moreover have "filter (\<lambda>u. u_id u = au_id visitor) (users open_day) = []"
    using users_shop by (auto simp: open_day_tables visitor_def filter_empty_conv)
  moreover from this have "handle no_faults quiet 7 (Some ''Bearer TV'') GetAdminLogs open_day
       = (Json 403 (ErrorBody ''Admin access required''),
          open_day\<lparr>users := users open_day @ [visitor_row]\<rparr>)"
    by (simp add: get_admin_logs_def with_admin_def with_user_def v getOrCreateUserRecord_def
        no_faults_def Let_def forbidden_def visitor_def visitor_row_def toLowerCase_def
        lower_char_def)
  ultimately show ?thesis
    by (simp add: verifyUser_def stored_role_def eve_row_def)
qed

lemmas handler_defs = get_user_def post_addresses_def put_address_def post_cart_def
  post_orders_def put_order_status_def get_admin_analytics_def get_admin_logs_def

text \<open>
  C4 (amended). Every route other than the sign-up, \<^verbatim>\<open>POST /create-admin\<close> and the three
  reads of the catalogue answers 401 to a request without a valid bearer token, and
  every administrator route answers 403 to a signed-in user whose row in \<^verbatim>\<open>users\<close>
  holds a role other than \<^verbatim>\<open>admin\<close>; in both cases the state is left as it was, whatever
  the store would answer and whatever the rest of the handler does.
\<close>

theorem token_and_role_checks:
  "(verifyUser s authHeader = None \<longrightarrow> \<not> public_endpoint ep \<longrightarrow>
      (\<forall>req. ep \<noteq> PostCreateAdmin req) \<longrightarrow>
      handle st rest now authHeader ep s = (Json 401 (ErrorBody ''Unauthorized''), s))
   \<and> (verifyUser s authHeader = Some user \<longrightarrow> admin_endpoint ep \<longrightarrow>
      stored_role s (au_id user) = Some role \<longrightarrow> role \<noteq> ''admin'' \<longrightarrow>
      handle st rest now authHeader ep s = (Json 403 (ErrorBody ''Admin access required''), s))"
proof (intro conjI impI)
  assume "verifyUser s authHeader = None" "\<not> public_endpoint ep" "\<forall>req. ep \<noteq> PostCreateAdmin req"
  then show "handle st rest now authHeader ep s = (Json 401 (ErrorBody ''Unauthorized''), s)"
    by (cases ep) (simp_all add: handler_defs with_admin_def with_user_def unauthorized_def)
next
  assume "verifyUser s authHeader = Some user" "admin_endpoint ep"
    "stored_role s (au_id user) = Some role" "role \<noteq> ''admin''"
  then show "handle st rest now authHeader ep s = (Json 403 (ErrorBody ''Admin access required''), s)"
    by (cases ep) (simp_all add: handler_defs role_check forbidden_def)
qed

text \<open>An order without a token; the logs asked for by a customer.\<close>

theorem token_and_role_checks_witness:
  "verifyUser shop None = None
   \<and> \<not> public_endpoint (PostOrders (basket [tea_line 1] 2))
   \<and> handle no_faults quiet 0 None (PostOrders (basket [tea_line 1] 2)) shop
       = (Json 401 (ErrorBody ''Unauthorized''), shop)
   \<and> verifyUser shop (Some ''Bearer TA'') = Some ann
   \<and> admin_endpoint GetAdminLogs
   \<and> stored_role shop (au_id ann) = Some ''user''
   \<and> handle no_faults quiet 0 (Some ''Bearer TA'') GetAdminLogs shop
       = (Json 403 (ErrorBody ''Admin access required''), shop)"
proof -
  have n: "verifyUser shop None = None" by (simp add: verifyUser_def)
  have r: "stored_role shop (au_id ann) = Some ''user''"
    by (simp add: stored_role_def shop_def ann_def)
  from token_and_role_checks[where s = shop and authHeader = None
      and ep = "PostOrders (basket [tea_line 1] 2)" and st = no_faults and rest = quiet and now = 0]
    n
  have a: "handle no_faults quiet 0 None (PostOrders (basket [tea_line 1] 2)) shop
       = (Json 401 (ErrorBody ''Unauthorized''), shop)"
    by simp
  from token_and_role_checks[where s = shop and authHeader = "Some ''Bearer TA''"
      and ep = GetAdminLogs and st = no_faults and rest = quiet and now = 0 and user = ann
      and role = "''user''"]
    verify_ann r
  have b: "handle no_faults quiet 0 (Some ''Bearer TA'') GetAdminLogs shop
       = (Json 403 (ErrorBody ''Admin access required''), shop)"
    by simp
  from n r a b verify_ann show ?thesis by simp
qed

subsection \<open>The role of a first request\<close>

lemma first_admin_request:
  assumes "verifyUser s authHeader = Some user"
    and "filter (\<lambda>u. u_id u = au_id user) (users s) = []"
    and "map_option toLowerCase (au_email user) = Some ''admin@tawsil.com''"
  shows "with_admin no_faults now s authHeader body
           = body user (s\<lparr>users := users s @
                [\<lparr>u_id = au_id user, u_email = au_email user, u_role = ''admin'',
                  u_name = None, u_phone = None, u_created_at = now\<rparr>]\<rparr>)"
    and "with_admin no_faults now
            (s\<lparr>users := users s @
                [\<lparr>u_id = au_id user, u_email = au_email user, u_role = ''admin'',
                  u_name = None, u_phone = None, u_created_at = now\<rparr>]\<rparr>) authHeader body
           = body user (s\<lparr>users := users s @
                [\<lparr>u_id = au_id user, u_email = au_email user, u_role = ''admin'',
                  u_name = None, u_phone = None, u_created_at = now\<rparr>]\<rparr>)"
    and "stored_role (s\<lparr>users := users s @
                [\<lparr>u_id = au_id user, u_email = au_email user, u_role = ''admin'',
                  u_name = None, u_phone = None, u_created_at = now\<rparr>]\<rparr>) (au_id user)
           = Some ''admin''"
proof -
  let ?row = "\<lparr>u_id = au_id user, u_email = au_email user, u_role = ''admin'',
                  u_name = None, u_phone = None, u_created_at = now\<rparr>"
  let ?s' = "s\<lparr>users := users s @ [?row]\<rparr>"
  show "with_admin no_faults now s authHeader body = body user ?s'"
    using assms
    by (simp add: getOrCreateUserRecord_def with_admin_def with_user_def no_faults_def Let_def)
  have v: "verifyUser ?s' authHeader = Some user"
    using assms(1) verifyUser_sessions[of ?s' s authHeader] by simp
  show r: "stored_role ?s' (au_id user) = Some ''admin''"
    using assms(2) by (simp add: stored_role_def)
  show "with_admin no_faults now ?s' authHeader body = body user ?s'"
    by (rule admin_passes[OF v r])
qed

lemma handle_first_admin_request:
  assumes "verifyUser s authHeader = Some user"
    and "filter (\<lambda>u. u_id u = au_id user) (users s) = []"
    and "map_option toLowerCase (au_email user) = Some ''admin@tawsil.com''"
    and "admin_endpoint ep"
  shows "handle no_faults rest now authHeader ep s
           = handle no_faults rest now authHeader ep
               (s\<lparr>users := users s @
                  [\<lparr>u_id = au_id user, u_email = au_email user, u_role = ''admin'',
                    u_name = None, u_phone = None, u_created_at = now\<rparr>]\<rparr>)"
  using assms(4)
  by (cases ep)
     (simp_all add: put_order_status_def get_admin_analytics_def get_admin_logs_def
        first_admin_request[OF assms(1-3)])

text \<open>
  C9. For a user without a row in \<^verbatim>\<open>users\<close>, on a store that applies the insert,
  \<open>getOrCreateUserRecord\<close> adds a row for them whose role is \<^verbatim>\<open>admin\<close> exactly when
  the lower-cased e-mail address is \<^verbatim>\<open>admin@tawsil.com\<close>, and \<^verbatim>\<open>user\<close> otherwise. A
  signed-in user with that address and no row passes the role check that every
  administrator route opens with: the handler goes on with the new row stored, and every
  administrator route answers the request exactly as it would with that \<^verbatim>\<open>admin\<close> row
  already in the table.
\<close>

theorem first_request_role:
  "(filter (\<lambda>u. u_id u = uid) (users s) = [] \<longrightarrow>
      (\<exists>row. getOrCreateUserRecord no_faults now s uid mail
                = Inr (row, s\<lparr>users := users s @ [row]\<rparr>)
         \<and> u_id row = uid \<and> u_email row = mail
         \<and> (u_role row = ''admin'' \<or> u_role row = ''user'')
         \<and> (u_role row = ''admin'' \<longleftrightarrow> map_option toLowerCase mail = Some ''admin@tawsil.com'')))
   \<and> (verifyUser s authHeader = Some user \<longrightarrow>
      filter (\<lambda>u. u_id u = au_id user) (users s) = [] \<longrightarrow>
      map_option toLowerCase (au_email user) = Some ''admin@tawsil.com'' \<longrightarrow>
      (\<exists>row. u_id row = au_id user \<and> u_role row = ''admin''
         \<and> stored_role (s\<lparr>users := users s @ [row]\<rparr>) (au_id user) = Some ''admin''
         \<and> with_admin no_faults now s authHeader body = body user (s\<lparr>users := users s @ [row]\<rparr>)
         \<and> (admin_endpoint ep \<longrightarrow>
              handle no_faults rest now authHeader ep s
                = handle no_faults rest now authHeader ep (s\<lparr>users := users s @ [row]\<rparr>))))"
proof (intro conjI impI)
  assume "filter (\<lambda>u. u_id u = uid) (users s) = []"
  then show "\<exists>row. getOrCreateUserRecord no_faults now s uid mail
                = Inr (row, s\<lparr>users := users s @ [row]\<rparr>)
         \<and> u_id row = uid \<and> u_email row = mail
         \<and> (u_role row = ''admin'' \<or> u_role row = ''user'')
         \<and> (u_role row = ''admin'' \<longleftrightarrow> map_option toLowerCase mail = Some ''admin@tawsil.com'')"
    by (simp add: getOrCreateUserRecord_def no_faults_def Let_def)
next
  assume a: "verifyUser s authHeader = Some user"
    "filter (\<lambda>u. u_id u = au_id user) (users s) = []"
    "map_option toLowerCase (au_email user) = Some ''admin@tawsil.com''"
  let ?row = "\<lparr>u_id = au_id user, u_email = au_email user, u_role = ''admin'',
               u_name = None, u_phone = None, u_created_at = now\<rparr>"
  have "u_id ?row = au_id user \<and> u_role ?row = ''admin''
         \<and> stored_role (s\<lparr>users := users s @ [?row]\<rparr>) (au_id user) = Some ''admin''
         \<and> with_admin no_faults now s authHeader body = body user (s\<lparr>users := users s @ [?row]\<rparr>)
         \<and> (admin_endpoint ep \<longrightarrow>
              handle no_faults rest now authHeader ep s
                = handle no_faults rest now authHeader ep (s\<lparr>users := users s @ [?row]\<rparr>))"
    using first_admin_request(1,3)[OF a, of now] handle_first_admin_request[OF a, of ep rest now]
    by simp
  then show "\<exists>row. u_id row = au_id user \<and> u_role row = ''admin''
         \<and> stored_role (s\<lparr>users := users s @ [row]\<rparr>) (au_id user) = Some ''admin''
         \<and> with_admin no_faults now s authHeader body = body user (s\<lparr>users := users s @ [row]\<rparr>)
         \<and> (admin_endpoint ep \<longrightarrow>
              handle no_faults rest now authHeader ep s
                = handle no_faults rest now authHeader ep (s\<lparr>users := users s @ [row]\<rparr>))"
    by (rule exI)
qed

text \<open>A first request, for the logs, signed in as \<^verbatim>\<open>Admin@Tawsil.COM\<close>.\<close>

theorem first_request_role_witness:
  "verifyUser open_day (Some ''Bearer TN'') = Some newcomer
   \<and> filter (\<lambda>u. u_id u = au_id newcomer) (users open_day) = []
   \<and> au_email newcomer = Some ''Admin@Tawsil.COM''
   \<and> admin_endpoint GetAdminLogs
   \<and> (\<exists>row. u_id row = au_id newcomer \<and> u_role row = ''admin''
        \<and> handle no_faults quiet 0 (Some ''Bearer TN'') GetAdminLogs open_day
            = (Json 200 (LogsBody []), open_day\<lparr>users := users open_day @ [row]\<rparr>))"
proof -
  have v: "verifyUser open_day (Some ''Bearer TN'') = Some newcomer"
    by (simp add: verifyUser_def open_day_tables)
  have f: "filter (\<lambda>u. u_id u = au_id newcomer) (users open_day) = []"
    by (simp add: open_day_tables shop_def newcomer_def)
  have m: "map_option toLowerCase (au_email newcomer) = Some ''admin@tawsil.com''"
    by (simp add: newcomer_def toLowerCase_example)
  from first_request_role[THEN conjunct2, rule_format, OF v f m, of 0
      "\<lambda>user s. (Json 200 (LogsBody (map transformedLog
                              (take 100 (newest_first l_created_at (activity_logs s))))), s)"]
  have "\<exists>row. u_id row = au_id newcomer \<and> u_role row = ''admin''
        \<and> handle no_faults quiet 0 (Some ''Bearer TN'') GetAdminLogs open_day
            = (Json 200 (LogsBody []), open_day\<lparr>users := users open_day @ [row]\<rparr>)"
    by (auto simp: get_admin_logs_def open_day_tables newest_first_def)
  with v f show ?thesis by (simp add: newcomer_def)
qed

subsection \<open>Adding to the cart\<close>



subsection \<open>The default address\<close>


lemma clear_row_simps [simp]:
  "a_id (clear_row u except a) = a_id a"
  "a_user_id (clear_row u except a) = a_user_id a"
  "a_is_default (clear_row u except a)
     = (a_is_default a \<and> \<not> (a_user_id a = u \<and> Some (a_id a) \<noteq> except))"
  by (simp_all add: clear_row_def)















subsection \<open>The log of a status update\<close>

lemma insort_key_snoc:
  "f y \<le> f x \<Longrightarrow> insort_key f y (zs @ [x]) = insort_key f y zs @ [x]"
  by (induction zs) simp_all

lemma sort_key_snoc:
  assumes "\<forall>y\<in>set xs. f y \<le> f x"
  shows "sort_key f (xs @ [x]) = sort_key f xs @ [x]"
proof -
  have "foldr (insort_key f) xs [x] = sort_key f xs @ [x]"
    using assms by (induction xs) (simp_all add: sort_key_def insort_key_snoc)
  then show ?thesis by (simp add: sort_key_def)
qed

lemma newest_first_snoc:
  "\<forall>y\<in>set xs. key y \<le> key x \<Longrightarrow> newest_first key (xs @ [x]) = x # newest_first key xs"
  by (simp add: newest_first_def sort_key_snoc)

lemma status_update_success:
  assumes "verifyUser s authHeader = Some user" and "stored_role s (au_id user) = Some ''admin''"
    and "single (filter (\<lambda>r. o_id r = order_id) (orders s)) = Some order"
  shows "\<exists>P Q. snd (put_order_status no_faults now authHeader order_id status s)
           = s\<lparr>products := P, orders := Q,
                activity_logs := activity_logs s @
                   [new_log s now ''order_status_updated'' user
                      [(''order_id'', JId order_id),
                       (''previous_status'', JStr (o_status order)),
                       (''newStatus'', JStr status)]]\<rparr>"
proof -
  let ?ls = "filter (\<lambda>i. i_order_id i = order_id) (order_items s)"
  let ?s1 = "if status = ''cancelled'' \<and> o_status order \<noteq> ''cancelled''
             then restock no_faults now ?ls s else s"
  have "\<exists>P. ?s1 = s\<lparr>products := P\<rparr>"
  proof (cases "status = ''cancelled'' \<and> o_status order \<noteq> ''cancelled''")
    case True
    then have "?s1 = restock no_faults now ?ls s" by (rule if_P)
    with restock_frame[of no_faults now ?ls s] show ?thesis by simp
  next
    case False
    then have "?s1 = s" by (rule if_not_P)
    then have "?s1 = s\<lparr>products := products s\<rparr>" by simp
    then show ?thesis ..
  qed
  then obtain P where P: "?s1 = s\<lparr>products := P\<rparr>" ..
  have "snd (put_order_status no_faults now authHeader order_id status s)
           = s\<lparr>products := P,
                orders := map (\<lambda>r. if o_id r = order_id
                                    then r\<lparr>o_status := status, o_updated_at := now,
                                           o_updated_by := Some (au_id user)\<rparr>
                                    else r) (orders s),
                activity_logs := activity_logs s @
                   [new_log s now ''order_status_updated'' user
                      [(''order_id'', JId order_id),
                       (''previous_status'', JStr (o_status order)),
                       (''newStatus'', JStr status)]]\<rparr>"
    unfolding put_order_status_def admin_passes[OF assms(1,2)]
    using assms(3) P
    by (simp add: Let_def no_faults_def insert_log_def unchecked_write_def new_log_def)
  then show ?thesis by blast
qed

text \<open>
  C10. After every status update that goes through (an administrator, an existing order,
  a store that applies the writes, no log row dated after the request), the newest entry
  that \<^verbatim>\<open>GET /admin/logs\<close> returns is the one of that update: its \<^verbatim>\<open>previousStatus\<close> is
  the status the order had and its \<^verbatim>\<open>newStatus\<close> is undefined. The reason is the key:
  for every log row whose details hold the keys the status handler writes (\<^verbatim>\<open>order_id\<close>,
  \<^verbatim>\<open>previous_status\<close>, \<^verbatim>\<open>newStatus\<close>), the entry made of it has the previous status
  and an undefined \<^verbatim>\<open>newStatus\<close>, since the logs handler reads \<^verbatim>\<open>new_status\<close>.
\<close>

theorem status_event_in_logs:
  "(verifyUser s authHeader = Some user \<longrightarrow> stored_role s (au_id user) = Some ''admin'' \<longrightarrow>
    single (filter (\<lambda>r. o_id r = order_id) (orders s)) = Some order \<longrightarrow>
    (\<forall>l\<in>set (activity_logs s). l_created_at l \<le> now) \<longrightarrow>
      (\<exists>e es. fst (get_admin_logs no_faults later authHeader
                      (snd (put_order_status no_faults now authHeader order_id status s)))
                 = Json 200 (LogsBody (e # es))
         \<and> e_type e = ''order_status_updated'' \<and> orderId e = Some (JId order_id)
         \<and> previousStatus e = Some (JStr (o_status order)) \<and> newStatus e = None))
   \<and> (l_details row = Some [(''order_id'', a), (''previous_status'', b), (''newStatus'', c)] \<longrightarrow>
        previousStatus (transformedLog row) = Some b \<and> newStatus (transformedLog row) = None)"
proof (intro conjI impI)
  assume v: "verifyUser s authHeader = Some user"
    and r: "stored_role s (au_id user) = Some ''admin''"
    and f: "single (filter (\<lambda>r. o_id r = order_id) (orders s)) = Some order"
    and old: "\<forall>l\<in>set (activity_logs s). l_created_at l \<le> now"
  let ?L = "new_log s now ''order_status_updated'' user
              [(''order_id'', JId order_id),
               (''previous_status'', JStr (o_status order)),
               (''newStatus'', JStr status)]"
  from status_update_success[OF v r f, of now status] obtain P Q where
    s': "snd (put_order_status no_faults now authHeader order_id status s)
           = s\<lparr>products := P, orders := Q, activity_logs := activity_logs s @ [?L]\<rparr>"
    by blast
  let ?s' = "s\<lparr>products := P, orders := Q, activity_logs := activity_logs s @ [?L]\<rparr>"
  have v': "verifyUser ?s' authHeader = Some user"
    using v verifyUser_sessions[of ?s' s authHeader] by simp
  have r': "stored_role ?s' (au_id user) = Some ''admin''"
    using r by (simp add: stored_role_def)
  have "\<forall>l\<in>set (activity_logs s). l_created_at l \<le> l_created_at ?L"
    using old by (simp add: new_log_def)
  then have n: "newest_first l_created_at (activity_logs s @ [?L])
                  = ?L # newest_first l_created_at (activity_logs s)"
    by (rule newest_first_snoc)
  have "fst (get_admin_logs no_faults later authHeader ?s')
          = Json 200 (LogsBody (transformedLog ?L
               # map transformedLog (take 99 (newest_first l_created_at (activity_logs s)))))"
    unfolding get_admin_logs_def admin_passes[OF v' r']
    by (simp add: n take_Cons')
  moreover have "e_type (transformedLog ?L) = ''order_status_updated''"
    "orderId (transformedLog ?L) = Some (JId order_id)"
    "previousStatus (transformedLog ?L) = Some (JStr (o_status order))"
    "newStatus (transformedLog ?L) = None"
    by (simp_all add: transformedLog_def detail_def new_log_def)
  ultimately show "\<exists>e es. fst (get_admin_logs no_faults later authHeader
                      (snd (put_order_status no_faults now authHeader order_id status s)))
                 = Json 200 (LogsBody (e # es))
         \<and> e_type e = ''order_status_updated'' \<and> orderId e = Some (JId order_id)
         \<and> previousStatus e = Some (JStr (o_status order)) \<and> newStatus e = None"
    unfolding s' by blast
next
  assume "l_details row = Some [(''order_id'', a), (''previous_status'', b), (''newStatus'', c)]"
  then show "previousStatus (transformedLog row) = Some b"
    by (simp add: transformedLog_def detail_def)
next
  assume "l_details row = Some [(''order_id'', a), (''previous_status'', b), (''newStatus'', c)]"
  then show "newStatus (transformedLog row) = None"
    by (simp add: transformedLog_def detail_def)
qed

text \<open>The order of two teas is shipped; the administrator then reads the logs.\<close>

theorem status_event_in_logs_witness:
  "verifyUser sold (Some ''Bearer TR'') = Some boss
   \<and> stored_role sold (au_id boss) = Some ''admin''
   \<and> single (filter (\<lambda>r. o_id r = 100) (orders sold)) = Some tea_order
   \<and> activity_logs sold = []
   \<and> o_status tea_order = ''pending''
   \<and> (\<exists>e es. fst (get_admin_logs no_faults 20 (Some ''Bearer TR'')
                      (snd (put_order_status no_faults 9 (Some ''Bearer TR'') 100 ''shipped'' sold)))
                 = Json 200 (LogsBody (e # es))
         \<and> e_type e = ''order_status_updated'' \<and> orderId e = Some (JId 100)
         \<and> previousStatus e = Some (JStr ''pending'') \<and> newStatus e = None)"
proof -
  have o: "single (filter (\<lambda>r. o_id r = 100) (orders sold)) = Some tea_order"
    by (simp add: sold_tables tea_order_def)
  have l: "\<forall>l\<in>set (activity_logs sold). l_created_at l \<le> 9"
    by (simp add: sold_tables)
  have p: "o_status tea_order = ''pending''" by (simp add: tea_order_def)
  from status_event_in_logs[where s = sold and authHeader = "Some ''Bearer TR''" and user = boss
      and order_id = 100 and order = tea_order and now = 9 and later = 20
      and status = "''shipped''", THEN conjunct1]
    verify_boss boss_is_admin o l
  have "\<exists>e es. fst (get_admin_logs no_faults 20 (Some ''Bearer TR'')
                      (snd (put_order_status no_faults 9 (Some ''Bearer TR'') 100 ''shipped'' sold)))
                 = Json 200 (LogsBody (e # es))
         \<and> e_type e = ''order_status_updated'' \<and> orderId e = Some (JId 100)
         \<and> previousStatus e = Some (JStr (o_status tea_order)) \<and> newStatus e = None"
    by blast
  with verify_boss boss_is_admin o p sold_tables(6)
  show ?thesis by simp
qed

end
